theory Spec2Isabelle
  imports Complex_Main "HOL-Library.List_Lexorder"
begin

section \<open>Python strings\<close>

text \<open>
  A Python \<open>str\<close> is a sequence of Unicode code points, so a text is a list of natural
  numbers; a literal of the source is written \<open>S ''...''\<close>. The order on texts is the
  lexicographic order of their code points, which is how Python compares strings.

  The character tables of Python (\<open>str.lower\<close>, \<open>str.isspace\<close>, the classes \<open>\d\<close> and
  \<open>\w\<close> of the module \<open>re\<close>) are written out for the code points up to U+00FF, where
  they are exact; \<open>py_isspace\<close> and \<open>is_linebreak\<close> are exact on all code points. Above
  U+00FF the model treats a code point as caseless, as no digit and as no word
  character.
\<close>

type_synonym pystr = "nat list"

definition S :: "string \<Rightarrow> pystr" where
  "S s = map of_char s"

definition lower_cp :: "nat \<Rightarrow> nat" where
  "lower_cp c =
     (if (65 \<le> c \<and> c \<le> 90) \<or> (192 \<le> c \<and> c \<le> 214) \<or> (216 \<le> c \<and> c \<le> 222)
      then c + 32 else c)"

definition lower :: "pystr \<Rightarrow> pystr" where
  "lower s = map lower_cp s"

fun startswith :: "'a list \<Rightarrow> 'a list \<Rightarrow> bool" where
  "startswith s [] = True"
| "startswith [] (p # ps) = False"
| "startswith (c # s) (p # ps) = (c = p \<and> startswith s ps)"

text \<open>\<open>str_in sub s\<close> is Python's \<open>sub in s\<close>: \<open>sub\<close> occurs in \<open>s\<close> as a substring.\<close>

fun str_in :: "'a list \<Rightarrow> 'a list \<Rightarrow> bool" where
  "str_in sub [] = (sub = [])"
| "str_in sub (c # s) = (startswith (c # s) sub \<or> str_in sub s)"

section \<open>The bureau classifier (credit\_bureau.py)\<close>

text \<open>
  A dict is an association list in insertion order. \<open>scores\<close> is \<open>_scores\<close>: every
  \<open>scores[b] += w\<close> under an \<open>if\<close> is a summand that is \<open>w\<close> or \<open>0\<close>. The two glyph
  signatures are the three code points each that the source file holds.
\<close>

type_synonym score_map = "(pystr \<times> int) list"

definition hit :: "bool \<Rightarrow> int \<Rightarrow> int" where
  "hit b w = (if b then w else 0)"

definition scores :: "pystr \<Rightarrow> score_map" where
  "scores text =
     (if text = [] then [(S ''transunion'', 0), (S ''experian'', 0), (S ''equifax'', 0)]
      else
        let t = lower text in
        [(S ''transunion'',
            hit (str_in (S ''satisfactory accounts'') t) 2
          + hit (str_in (S ''payment/remarks key'') t) 2
          + hit (str_in (S ''satisfactory accounts / account information'') t) 3
          + hit (str_in (S ''annualcreditreport.transunion.com'') t) 3),
         (S ''experian'',
            hit (str_in (S ''annual credit report - experian'') t) 3
          + hit (str_in (S ''balance histories'') t) 2
          + hit (str_in (S ''account info'') t) 1
          + hit (str_in [238, 167, 379] text \<or> str_in [238, 167, 172] text) 2),
         (S ''equifax'',
            hit (str_in (S ''your credit report summary'') t) 3
          + hit (str_in (S ''narrative code'') t) 2
          + hit (str_in (S ''credit accounts'') t) 2
          + hit (str_in (S ''narrative code'') t \<and> str_in (S ''description'') t) 1)])"

definition dict_values :: "('k \<times> 'v) list \<Rightarrow> 'v list" where
  "dict_values d = map snd d"

text \<open>
  \<open>max_score\<close> is \<open>max(scores.values())\<close>. Python's \<open>max\<close> raises on an empty sequence;
  the score dict always has its three entries (lemma \<open>scores_keys\<close>).
\<close>

definition max_score :: "score_map \<Rightarrow> int" where
  "max_score sc = Max (set (dict_values sc))"

text \<open>
  \<open>pick_bureau\<close> is the body of \<open>detect_bureau_with_scores\<close> after the scores are
  computed (lines 71 to 79), as a function of the score dict.
\<close>

definition pick_bureau :: "score_map \<Rightarrow> pystr" where
  "pick_bureau sc =
     (let priority = [S ''transunion'', S ''experian'', S ''equifax''];
          best_score = max_score sc
      in if best_score = 0 then S ''experian''
         else
           let candidates = map fst (filter (\<lambda>(b, s). s = best_score) sc)
           in case find (\<lambda>b. b \<in> set candidates) priority of
                Some b \<Rightarrow> b
              | None \<Rightarrow> S ''experian'')"

definition detect_bureau_with_scores :: "pystr \<Rightarrow> pystr \<times> score_map" where
  "detect_bureau_with_scores text = (let sc = scores text in (pick_bureau sc, sc))"

definition detect_bureau :: "pystr \<Rightarrow> pystr" where
  "detect_bureau text = fst (detect_bureau_with_scores text)"

text \<open>The score of a bureau in a score dict, as \<open>scores[b]\<close> reads it.\<close>

definition score_of :: "score_map \<Rightarrow> pystr \<Rightarrow> int" where
  "score_of sc b = (case map_of sc b of Some s \<Rightarrow> s | None \<Rightarrow> 0)"

text \<open>The fixed priority order of the tie-break, first to last.\<close>

definition PRIORITY :: "pystr list" where
  "PRIORITY = [S ''transunion'', S ''experian'', S ''equifax'']"

section \<open>The section segmenter (\_find\_span of the three extractors)\<close>

text \<open>
  The three extractors hold the same \<open>_find_span\<close>. A compiled pattern of the module
  \<open>re\<close> enters through its method \<open>search\<close>: \<open>pat text pos\<close> is the span
  \<open>(start, end)\<close> of the first match of the pattern in \<open>text\<close> at or after the offset
  \<open>pos\<close>, and \<open>None\<close> when there is no such match. The result is a pair of Python
  integers, since the sentinel is negative.
\<close>

type_synonym pattern = "pystr \<Rightarrow> nat \<Rightarrow> (nat \<times> nat) option"

definition find_span :: "pystr \<Rightarrow> pattern \<Rightarrow> pattern list \<Rightarrow> int \<times> int" where
  "find_span text start_pat end_pats =
     (case start_pat text 0 of
        None \<Rightarrow> (- 1, - 1)
      | Some (ms, me) \<Rightarrow>
          let start = me;
              end = fold (\<lambda>pat e. case pat text start of
                                    None \<Rightarrow> e
                                  | Some (s2, e2) \<Rightarrow> min e s2)
                         end_pats (length text)
          in (int start, int end))"

text \<open>
  The start offsets of the first matches, at or after \<open>pos\<close>, of those patterns of a
  list that match there.
\<close>

definition match_starts :: "pystr \<Rightarrow> nat \<Rightarrow> pattern list \<Rightarrow> nat list" where
  "match_starts text pos pats = List.map_filter (\<lambda>pat. map_option fst (pat text pos)) pats"

text \<open>
  A pattern that matches one literal text, as \<open>re.compile(re.escape(lit))\<close> does; it
  serves as a concrete pattern in the examples.
\<close>

fun literal_at :: "pystr \<Rightarrow> pystr \<Rightarrow> nat \<Rightarrow> nat \<Rightarrow> (nat \<times> nat) option" where
  "literal_at lit [] i pos = (if lit = [] \<and> pos \<le> i then Some (i, i) else None)"
| "literal_at lit (c # s) i pos =
     (if pos \<le> i \<and> startswith (c # s) lit then Some (i, i + length lit)
      else literal_at lit s (Suc i) pos)"

definition literal_pattern :: "pystr \<Rightarrow> pattern" where
  "literal_pattern lit = (\<lambda>text pos. literal_at lit text 0 pos)"

section \<open>String helpers of the extractors\<close>

text \<open>\<open>or_empty x\<close> is \<open>x or ""\<close>, and \<open>or_none x\<close> is \<open>x or None\<close>, for an optional string.\<close>

definition or_empty :: "pystr option \<Rightarrow> pystr" where
  "or_empty x = (case x of None \<Rightarrow> [] | Some s \<Rightarrow> s)"

definition or_none :: "pystr option \<Rightarrow> pystr option" where
  "or_none x = (case x of None \<Rightarrow> None | Some s \<Rightarrow> (if s = [] then None else Some s))"

text \<open>\<open>join sep xs\<close> is \<open>sep.join(xs)\<close>.\<close>

fun join :: "pystr \<Rightarrow> pystr list \<Rightarrow> pystr" where
  "join sep [] = []"
| "join sep [x] = x"
| "join sep (x # y # ys) = x @ sep @ join sep (y # ys)"

text \<open>\<open>any_in ks s\<close> is \<open>any(k in s for k in ks)\<close>.\<close>

definition any_in :: "pystr list \<Rightarrow> pystr \<Rightarrow> bool" where
  "any_in ks s = list_ex (\<lambda>k. str_in k s) ks"

text \<open>
  The class \<open>\w\<close> of \<open>re\<close> on a \<open>str\<close>: the letters, digits and numeric characters of
  Unicode and the underscore, here for the code points up to U+00FF.
\<close>

definition is_word_cp :: "nat \<Rightarrow> bool" where
  "is_word_cp c \<longleftrightarrow>
     (48 \<le> c \<and> c \<le> 57) \<or> (65 \<le> c \<and> c \<le> 90) \<or> c = 95 \<or> (97 \<le> c \<and> c \<le> 122)
     \<or> c \<in> {170, 178, 179, 181, 185, 186, 188, 189, 190}
     \<or> (192 \<le> c \<and> c \<le> 214) \<or> (216 \<le> c \<and> c \<le> 246) \<or> (248 \<le> c \<and> c \<le> 255)"

text \<open>
  \<open>word_search w s\<close> is \<open>re.search(r"\bw\b", s)\<close> for a word \<open>w\<close> of word characters:
  \<open>w\<close> occurs in \<open>s\<close> with no word character right before it and none right after it.
  The flag of \<open>word_search_from\<close> tells whether the character before the rest is a word
  character.
\<close>

fun word_search_from :: "pystr \<Rightarrow> bool \<Rightarrow> pystr \<Rightarrow> bool" where
  "word_search_from w prev [] = False"
| "word_search_from w prev (c # s) =
     ((\<not> prev \<and> startswith (c # s) w
        \<and> (case drop (length w) (c # s) of [] \<Rightarrow> True | d # _ \<Rightarrow> \<not> is_word_cp d))
      \<or> word_search_from w (is_word_cp c) s)"

definition word_search :: "pystr \<Rightarrow> pystr \<Rightarrow> bool" where
  "word_search w s = word_search_from w False s"

text \<open>The keywords of a late payment, shared by the three status mappings.\<close>

definition LATE_KEYS :: "pystr list" where
  "LATE_KEYS = [S ''30'', S ''60'', S ''90'', S ''120'', S ''late'', S ''delinquent'']"

section \<open>Kind and status mapping (parse\_transunion.py)\<close>

definition map_kind_tu :: "pystr \<Rightarrow> pystr option \<Rightarrow> pystr" where
  "map_kind_tu account_type loan_type =
     (let at' = lower account_type; lt = lower (or_empty loan_type) in
      if str_in (S ''revolving'') at' \<or> str_in (S ''revolving'') lt then S ''revolving''
      else if str_in (S ''mortgage'') at' \<or> str_in (S ''mortgage'') lt then S ''mortgage''
      else if str_in (S ''installment'') at' \<or> str_in (S ''installment'') lt then S ''installment''
      else if str_in (S ''lease'') at' \<or> str_in (S ''lease'') lt then S ''lease''
      else if str_in (S ''student'') at' \<or> str_in (S ''student'') lt then S ''student''
      else if startswith at' (S ''open'') \<or> str_in (S ''open account'') at' then S ''open''
      else S ''other'')"

definition hay_of :: "pystr \<Rightarrow> pystr list \<Rightarrow> pystr" where
  "hay_of s texts = s @ S '' '' @ lower (join (S '' '') texts)"

definition map_status_tu :: "pystr \<Rightarrow> pystr list \<Rightarrow> pystr" where
  "map_status_tu pay_status remarks =
     (let ps = lower pay_status; hay = hay_of ps remarks in
      if str_in (S ''current account'') hay \<or> word_search (S ''current'') ps then S ''current''
      else if str_in (S ''paid'') hay \<and> str_in (S ''closed'') hay then S ''closed''
      else if str_in (S ''transferred'') hay then S ''transferred''
      else if word_search (S ''sold'') hay then S ''sold''
      else if str_in (S ''collection'') hay then S ''collection''
      else if str_in (S ''charge-off'') hay \<or> str_in (S ''chargeoff'') hay
              \<or> str_in (S ''charge off'') hay then S ''chargeoff''
      else if any_in LATE_KEYS hay then S ''delinquent''
      else if str_in (S ''closed'') hay then S ''closed''
      else S ''open'')"

section \<open>Kind and status mapping (parse\_experian.py)\<close>

definition map_kind_exp :: "pystr option \<Rightarrow> pystr" where
  "map_kind_exp account_type =
     (let at' = lower (or_empty account_type) in
      if str_in (S ''credit card'') at' then S ''revolving''
      else if str_in (S ''mortgage'') at' \<or> str_in (S ''conventional'') at' then S ''mortgage''
      else if str_in (S ''education'') at' \<or> str_in (S ''student'') at' then S ''student''
      else if str_in (S ''lease'') at' then S ''lease''
      else if any_in [S ''auto'', S ''installment'', S ''personal loan'', S ''loan''] at'
        then S ''installment''
      else if startswith at' (S ''open'') then S ''open''
      else S ''other'')"

definition map_status_exp :: "pystr option \<Rightarrow> pystr" where
  "map_status_exp status =
     (let s = lower (or_empty status) in
      if str_in (S ''open'') s \<and> str_in (S ''never late'') s then S ''current''
      else if str_in (S ''paid'') s \<and> str_in (S ''closed'') s then S ''closed''
      else if str_in (S ''transferred'') s then S ''transferred''
      else if str_in (S ''sold'') s then S ''sold''
      else if str_in (S ''collection'') s then S ''collection''
      else if str_in (S ''charge-off'') s \<or> str_in (S ''charge off'') s
              \<or> str_in (S ''chargeoff'') s then S ''chargeoff''
      else if any_in LATE_KEYS s then S ''delinquent''
      else if str_in (S ''closed'') s then S ''closed''
      else if str_in (S ''paid'') s then S ''paid''
      else S ''open'')"

section \<open>Kind and status mapping (parse\_equifax.py)\<close>

definition map_kind_eq :: "pystr option \<Rightarrow> pystr" where
  "map_kind_eq text =
     (let t = lower (or_empty text) in
      if str_in (S ''revolving'') t \<or> str_in (S ''credit card'') t then S ''revolving''
      else if str_in (S ''mortgage'') t \<or> str_in (S ''home'') t then S ''mortgage''
      else if str_in (S ''student'') t \<or> str_in (S ''education'') t then S ''student''
      else if str_in (S ''lease'') t then S ''lease''
      else if any_in [S ''installment'', S ''auto'', S ''loan''] t then S ''installment''
      else if startswith t (S ''open'') then S ''open''
      else S ''other'')"

definition map_status_eq :: "pystr option \<Rightarrow> pystr list \<Rightarrow> pystr" where
  "map_status_eq status narratives =
     (let s = lower (or_empty status); hay = hay_of s narratives in
      if str_in (S ''pays as agreed'') hay
         \<or> (str_in (S ''open'') s \<and> str_in (S ''never late'') hay) then S ''current''
      else if str_in (S ''paid'') hay \<and> str_in (S ''closed'') hay then S ''closed''
      else if str_in (S ''transfer'') hay \<and> str_in (S ''sold'') hay then S ''sold''
      else if str_in (S ''transfer'') hay then S ''transferred''
      else if str_in (S ''sold'') hay then S ''sold''
      else if str_in (S ''collection'') hay then S ''collection''
      else if str_in (S ''charge-off'') hay \<or> str_in (S ''charge off'') hay
              \<or> str_in (S ''chargeoff'') hay then S ''chargeoff''
      else if any_in LATE_KEYS hay then S ''delinquent''
      else if str_in (S ''closed'') hay then S ''closed''
      else if str_in (S ''paid'') hay then S ''paid''
      else S ''open'')"

section \<open>The data model (models.py)\<close>

text \<open>
  A Python \<open>float\<close> that a field holds is modelled by the real number it stands for;
  the infinities and NaN do not occur in a field. The extractors only compare these
  numbers. The arithmetic of the aggregator rounds as IEEE doubles do (see the section
  on float arithmetic). A \<open>date\<close> is its year, month and day.
\<close>

type_synonym date = "nat \<times> nat \<times> nat"

text \<open>
  A row of a payment history is the dict the extractors build: the key \<open>month\<close> holds a
  string, the keys \<open>balance\<close>, \<open>scheduled_payment\<close> and \<open>past_due\<close> a float or \<open>None\<close>.
  \<open>None\<close> in \<open>row_month\<close> stands for a dict without the key \<open>month\<close>; \<open>None\<close> in
  a numeric field for a missing key or the value \<open>None\<close>, which \<open>dict.get\<close> does not
  tell apart.
\<close>

record row =
  row_month :: "pystr option"
  row_balance :: "real option"
  row_scheduled_payment :: "real option"
  row_past_due :: "real option"
  row_rating :: pystr

record account =
  creditor :: pystr
  masked_number :: "pystr option"
  kind :: pystr
  status :: pystr
  responsibility :: "pystr option"
  opened_on :: "date option"
  closed_on :: "date option"
  credit_limit :: "real option"
  high_balance :: "real option"
  balance :: "real option"
  scheduled_payment :: "real option"
  past_due :: "real option"
  payment_history :: "row list"
  remarks :: "pystr list"

text \<open>The values that the type \<open>Account\<close> allows for \<open>kind\<close> and for \<open>status\<close>.\<close>

definition KINDS :: "pystr list" where
  "KINDS = [S ''revolving'', S ''mortgage'', S ''installment'', S ''open'', S ''lease'',
            S ''student'', S ''other'']"

definition STATUSES :: "pystr list" where
  "STATUSES = [S ''open'', S ''closed'', S ''transferred'', S ''sold'', S ''paid'',
               S ''collection'', S ''chargeoff'', S ''delinquent'', S ''current'']"

section \<open>Account blocks of the three extractors\<close>

text \<open>
  The numeric guardrails \<open>clamp_limit\<close> and \<open>clamp_nonneg\<close>, which each extractor defines
  with the same body inside its loop over the account blocks.
\<close>

definition clamp_limit :: "real option \<Rightarrow> real option" where
  "clamp_limit x =
     (case x of None \<Rightarrow> None
      | Some v \<Rightarrow> if v < 100 \<or> v > 10000000 then None else Some v)"

definition clamp_nonneg :: "real option \<Rightarrow> real option" where
  "clamp_nonneg x = (case x of None \<Rightarrow> None | Some v \<Rightarrow> Some (max 0 v))"

text \<open>
  \<open>str.isspace\<close>, which is also the class \<open>\s\<close> of \<open>re\<close> and what \<open>str.strip\<close>
  removes; \<open>strip s\<close> is \<open>s.strip()\<close>.
\<close>

definition py_isspace :: "nat \<Rightarrow> bool" where
  "py_isspace c \<longleftrightarrow>
     (9 \<le> c \<and> c \<le> 13) \<or> (28 \<le> c \<and> c \<le> 32) \<or> c = 133 \<or> c = 160 \<or> c = 5760
     \<or> (8192 \<le> c \<and> c \<le> 8202) \<or> c = 8232 \<or> c = 8233 \<or> c = 8239 \<or> c = 8287
     \<or> c = 12288"

definition strip :: "pystr \<Rightarrow> pystr" where
  "strip s = rev (dropWhile py_isspace (rev (dropWhile py_isspace s)))"

text \<open>\<open>split_where P s\<close> is \<open>re.split\<close> of \<open>s\<close> at every character that satisfies \<open>P\<close>.\<close>

fun split_where :: "(nat \<Rightarrow> bool) \<Rightarrow> pystr \<Rightarrow> pystr list" where
  "split_where P [] = [[]]"
| "split_where P (c # s) =
     (if P c then [] # split_where P s
      else (case split_where P s of [] \<Rightarrow> [[c]] | x # xs \<Rightarrow> (c # x) # xs))"

text \<open>
  The extractors read the fields of an account block with regular expressions. A block
  enters the model as the values of those probes: the strings that \<open>find\<close> returns
  (\<open>None\<close> when the probe does not match), the numbers that \<open>_to_float\<close> makes of them,
  the dates of \<open>_parse_date\<close> and the rows of the history parser. For TransUnion
  \<open>tu_credit_limit\<close> and \<open>tu_high_balance\<close> are the values at the end of the chains of
  fallback probes (lines 247 to 302). What the loop body does with these values, from the
  guardrails to the \<open>Account\<close>, is \<open>account_tu\<close>, \<open>account_exp\<close> and \<open>account_eq\<close>.
\<close>

record tu_block =
  tu_creditor :: "pystr option"
  tu_monthly_payment :: "real option"
  tu_date_opened :: "date option"
  tu_date_closed :: "date option"
  tu_responsibility :: "pystr option"
  tu_account_type :: "pystr option"
  tu_loan_type :: "pystr option"
  tu_balance :: "real option"
  tu_credit_limit :: "real option"
  tu_high_balance :: "real option"
  tu_pay_status :: "pystr option"
  tu_masked_number :: "pystr option"
  tu_remarks :: "pystr option"
  tu_payment_history :: "row list"
  tu_past_due :: "real option"

definition account_tu :: "tu_block \<Rightarrow> account" where
  "account_tu b =
     (let rmks = (case tu_remarks b of None \<Rightarrow> [] | Some r \<Rightarrow> [r]);
          knd = map_kind_tu (or_empty (tu_account_type b)) (tu_loan_type b);
          stat = map_status_tu (or_empty (tu_pay_status b)) rmks;
          cl = clamp_limit (tu_credit_limit b);
          hb = clamp_nonneg (tu_high_balance b);
          bal = clamp_nonneg (tu_balance b);
          mp = clamp_nonneg (tu_monthly_payment b);
          pd = clamp_nonneg (tu_past_due b);
          cl2 = (if cl = None \<and> hb \<noteq> None then clamp_limit hb else cl)
      in \<lparr>creditor = or_empty (tu_creditor b),
          masked_number = or_none (tu_masked_number b),
          kind = knd,
          status = stat,
          responsibility = tu_responsibility b,
          opened_on = tu_date_opened b,
          closed_on = tu_date_closed b,
          credit_limit = cl2,
          high_balance = hb,
          balance = bal,
          scheduled_payment = mp,
          past_due = pd,
          payment_history = tu_payment_history b,
          remarks = rmks\<rparr>)"

record exp_block =
  exp_creditor :: "pystr option"
  exp_account_type :: "pystr option"
  exp_responsibility :: "pystr option"
  exp_date_opened :: "date option"
  exp_status_raw :: "pystr option"
  exp_monthly_payment :: "real option"
  exp_credit_limit :: "real option"
  exp_highest_balance :: "real option"
  exp_balance :: "real option"
  exp_masked_number :: "pystr option"
  exp_payment_history :: "row list"

definition account_exp :: "exp_block \<Rightarrow> account" where
  "account_exp b =
     (let cl = clamp_limit (exp_credit_limit b);
          hb = clamp_nonneg (exp_highest_balance b);
          bal = clamp_nonneg (exp_balance b);
          mp = clamp_nonneg (exp_monthly_payment b);
          cl2 = (if cl = None \<and> hb \<noteq> None then clamp_limit hb else cl)
      in \<lparr>creditor = or_empty (exp_creditor b),
          masked_number = or_none (exp_masked_number b),
          kind = map_kind_exp (exp_account_type b),
          status = map_status_exp (exp_status_raw b),
          responsibility = exp_responsibility b,
          opened_on = exp_date_opened b,
          closed_on = None,
          credit_limit = cl2,
          high_balance = hb,
          balance = bal,
          scheduled_payment = mp,
          past_due = None,
          payment_history = exp_payment_history b,
          remarks = []\<rparr>)"

record eq_block =
  eq_creditor :: "pystr option"
  eq_account_number :: "pystr option"
  eq_owner :: "pystr option"
  eq_date_opened :: "date option"
  eq_date_closed :: "date option"
  eq_balance :: "real option"
  eq_credit_limit :: "real option"
  eq_high_credit :: "real option"
  eq_loan_type :: "pystr option"
  eq_status_raw :: "pystr option"
  eq_narratives_line :: "pystr option"
  eq_payment_history :: "row list"

text \<open>
  The narratives of an Equifax block: the line after the label, split at \<open>,\<close>, \<open>;\<close>
  and \<open>/\<close>, each part stripped, the empty parts dropped.
\<close>

definition narratives_of :: "pystr option \<Rightarrow> pystr list" where
  "narratives_of line =
     filter (\<lambda>s. s \<noteq> [])
       (map strip (split_where (\<lambda>c. c = 44 \<or> c = 59 \<or> c = 47) (or_empty line)))"

definition account_eq :: "eq_block \<Rightarrow> account" where
  "account_eq b =
     (let narratives = narratives_of (eq_narratives_line b);
          cl = clamp_limit (eq_credit_limit b);
          hc = clamp_nonneg (eq_high_credit b);
          bal = clamp_nonneg (eq_balance b);
          cl2 = (if cl = None \<and> hc \<noteq> None then clamp_limit hc else cl)
      in \<lparr>creditor = or_empty (eq_creditor b),
          masked_number = or_none (eq_account_number b),
          kind = map_kind_eq (eq_loan_type b),
          status = map_status_eq (eq_status_raw b) narratives,
          responsibility = eq_owner b,
          opened_on = eq_date_opened b,
          closed_on = eq_date_closed b,
          credit_limit = cl2,
          high_balance = hc,
          balance = bal,
          scheduled_payment = None,
          past_due = None,
          payment_history = eq_payment_history b,
          remarks = narratives\<rparr>)"

text \<open>
  The loops of \<open>_parse_accounts\<close> (TransUnion, Experian) and \<open>_extract_accounts\<close>
  (Equifax) append one \<open>Account\<close> for each block, in the order of the blocks.
\<close>

definition parse_accounts_tu :: "tu_block list \<Rightarrow> account list" where
  "parse_accounts_tu blocks = map account_tu blocks"

definition parse_accounts_exp :: "exp_block list \<Rightarrow> account list" where
  "parse_accounts_exp blocks = map account_exp blocks"

definition extract_accounts_eq :: "eq_block list \<Rightarrow> account list" where
  "extract_accounts_eq blocks = map account_eq blocks"

text \<open>The credit limit of a block as the specification words it: the parsed limit when it lies in the range from 100 to 10,000,000, else the parsed high balance when that lies in the range, else \<open>None\<close>.\<close>

definition spec_credit_limit :: "real option \<Rightarrow> real option \<Rightarrow> real option" where
  "spec_credit_limit limit high =
     (case limit of
        Some x \<Rightarrow> (if 100 \<le> x \<and> x \<le> 10000000 then Some x
                   else (case high of None \<Rightarrow> None
                         | Some h \<Rightarrow> if 100 \<le> h \<and> h \<le> 10000000 then Some h else None))
      | None \<Rightarrow> (case high of None \<Rightarrow> None
                  | Some h \<Rightarrow> if 100 \<le> h \<and> h \<le> 10000000 then Some h else None))"

text \<open>The keywords that each mapping tests by plain containment.\<close>

definition TU_KIND_KEYS :: "pystr list" where
  "TU_KIND_KEYS = [S ''revolving'', S ''mortgage'', S ''installment'', S ''lease'', S ''student'']"

definition EXP_KIND_KEYS :: "pystr list" where
  "EXP_KIND_KEYS = [S ''credit card'', S ''mortgage'', S ''conventional'', S ''education'',
     S ''student'', S ''lease'', S ''auto'', S ''installment'', S ''personal loan'', S ''loan'']"

definition EQ_KIND_KEYS :: "pystr list" where
  "EQ_KIND_KEYS = [S ''revolving'', S ''credit card'', S ''mortgage'', S ''home'', S ''student'',
     S ''education'', S ''lease'', S ''installment'', S ''auto'', S ''loan'']"

definition TU_STATUS_KEYS :: "pystr list" where
  "TU_STATUS_KEYS = [S ''current account'', S ''transferred'', S ''collection'', S ''charge-off'',
     S ''chargeoff'', S ''charge off'', S ''30'', S ''60'', S ''90'', S ''120'', S ''late'',
     S ''delinquent'', S ''closed'']"

definition EXP_STATUS_KEYS :: "pystr list" where
  "EXP_STATUS_KEYS = [S ''transferred'', S ''sold'', S ''collection'', S ''charge-off'',
     S ''charge off'', S ''chargeoff'', S ''30'', S ''60'', S ''90'', S ''120'', S ''late'',
     S ''delinquent'', S ''closed'', S ''paid'']"

definition EQ_STATUS_KEYS :: "pystr list" where
  "EQ_STATUS_KEYS = [S ''pays as agreed'', S ''transfer'', S ''sold'', S ''collection'',
     S ''charge-off'', S ''charge off'', S ''chargeoff'', S ''30'', S ''60'', S ''90'', S ''120'',
     S ''late'', S ''delinquent'', S ''closed'', S ''paid'']"

text \<open>Example blocks, one for each extractor.\<close>

definition tu_block_example :: tu_block where
  "tu_block_example =
     \<lparr>tu_creditor = Some (S ''AMERICAN EXPRESS''),
      tu_monthly_payment = None,
      tu_date_opened = None,
      tu_date_closed = None,
      tu_responsibility = None,
      tu_account_type = Some (S ''Revolving''),
      tu_loan_type = None,
      tu_balance = Some 1109,
      tu_credit_limit = Some 35000,
      tu_high_balance = None,
      tu_pay_status = Some (S ''Current Account''),
      tu_masked_number = None,
      tu_remarks = None,
      tu_payment_history = [],
      tu_past_due = None\<rparr>"

definition exp_block_example :: exp_block where
  "exp_block_example =
     \<lparr>exp_creditor = Some (S ''CITY WATER''),
      exp_account_type = Some (S ''Utility''),
      exp_responsibility = None,
      exp_date_opened = None,
      exp_status_raw = Some (S ''Unknown''),
      exp_monthly_payment = None,
      exp_credit_limit = Some 5,
      exp_highest_balance = Some 500,
      exp_balance = None,
      exp_masked_number = None,
      exp_payment_history = []\<rparr>"

definition eq_block_example :: eq_block where
  "eq_block_example =
     \<lparr>eq_creditor = Some (S ''OLD BANK''),
      eq_account_number = None,
      eq_owner = None,
      eq_date_opened = None,
      eq_date_closed = None,
      eq_balance = None,
      eq_credit_limit = Some 20000000,
      eq_high_credit = Some 50,
      eq_loan_type = None,
      eq_status_raw = Some (S ''Transferred''),
      eq_narratives_line = Some (S ''Account sold; Closed''),
      eq_payment_history = []\<rparr>"

section \<open>Float arithmetic\<close>

text \<open>
  The result of an operation on floats is a finite double, given by its exact value, an
  infinity or a NaN.
\<close>

datatype pyfloat = Fin real | PosInf | NegInf | NaN

text \<open>\<open>pow2 e\<close> is the power of two with the integer exponent \<open>e\<close>.\<close>

definition pow2 :: "int \<Rightarrow> real" where
  "pow2 e = (if 0 \<le> e then 2 ^ nat e else 1 / 2 ^ nat (- e))"

text \<open>The integer nearest to a real number, a tie going to the even integer.\<close>

definition round_half_even :: "real \<Rightarrow> int" where
  "round_half_even y =
     (let f = \<lfloor>y\<rfloor>; d = y - of_int f
      in if d < 1 / 2 then f else if d > 1 / 2 then f + 1
         else if even f then f else f + 1)"

text \<open>
  \<open>binade y\<close> is the exponent of the binade of a positive \<open>y\<close>, kept between the
  least and the greatest exponent of a normal double: the \<open>e\<close> with
  \<open>2^e \<le> y < 2^(e+1)\<close>, but \<open>-1022\<close> for a smaller and \<open>1023\<close> for a greater \<open>y\<close>.
  \<open>exp_up\<close> halves and \<open>exp_down\<close> doubles until the value lies in \<open>[1, 2)\<close>.
\<close>

function exp_up :: "real \<Rightarrow> int \<Rightarrow> int" where
  "exp_up y e = (if 2 \<le> y \<and> e < 1023 then exp_up (y / 2) (e + 1) else e)"
  by pat_completeness auto
termination
  by (relation "measure (\<lambda>(y, e). nat (1023 - e))") auto

function exp_down :: "real \<Rightarrow> int \<Rightarrow> int" where
  "exp_down y e = (if y < 1 \<and> - 1022 < e then exp_down (y * 2) (e - 1) else e)"
  by pat_completeness auto
termination
  by (relation "measure (\<lambda>(y, e). nat (e + 1022))") auto

declare exp_up.simps [simp del] exp_down.simps [simp del]

definition binade :: "real \<Rightarrow> int" where
  "binade y = (if 1 \<le> y then exp_up y 0 else exp_down y 0)"

text \<open>
  \<open>nearest_double x\<close> rounds a real number to binary64, to the nearest and a tie to
  the even significand: doubles of the binade of \<open>x\<close> are the multiples of
  \<open>2^(e-52)\<close>, which for the least exponent is the spacing of the subnormal doubles.
  \<open>to_double\<close> adds the overflow: a rounded magnitude of \<open>2^1024\<close> or more is an
  infinity.
\<close>

definition nearest_double :: "real \<Rightarrow> real" where
  "nearest_double x =
     (if x = 0 then 0
      else let u = pow2 (binade \<bar>x\<bar> - 52)
           in sgn x * (of_int (round_half_even (\<bar>x\<bar> / u)) * u))"

definition to_double :: "real \<Rightarrow> pyfloat" where
  "to_double x =
     (let r = nearest_double x
      in if 2 ^ 1024 \<le> r then PosInf else if r \<le> - (2 ^ 1024) then NegInf else Fin r)"

text \<open>\<open>float_add a b\<close> is \<open>a + b\<close> on floats.\<close>

definition float_add :: "pyfloat \<Rightarrow> pyfloat \<Rightarrow> pyfloat" where
  "float_add a b =
     (case (a, b) of
        (Fin x, Fin y) \<Rightarrow> to_double (x + y)
      | (NaN, _) \<Rightarrow> NaN
      | (_, NaN) \<Rightarrow> NaN
      | (PosInf, NegInf) \<Rightarrow> NaN
      | (NegInf, PosInf) \<Rightarrow> NaN
      | (PosInf, _) \<Rightarrow> PosInf
      | (_, PosInf) \<Rightarrow> PosInf
      | (NegInf, _) \<Rightarrow> NegInf
      | (_, NegInf) \<Rightarrow> NegInf)"

text \<open>
  \<open>float_div a b\<close> is \<open>a / b\<close> on floats; \<open>None\<close> is the \<open>ZeroDivisionError\<close> that
  Python raises for a zero divisor.
\<close>

definition float_div :: "pyfloat \<Rightarrow> pyfloat \<Rightarrow> pyfloat option" where
  "float_div a b =
     (case b of
        Fin d \<Rightarrow>
          if d = 0 then None
          else Some (case a of
                       Fin n \<Rightarrow> to_double (n / d)
                     | PosInf \<Rightarrow> if 0 < d then PosInf else NegInf
                     | NegInf \<Rightarrow> if 0 < d then NegInf else PosInf
                     | NaN \<Rightarrow> NaN)
      | NaN \<Rightarrow> Some NaN
      | _ \<Rightarrow> Some (case a of Fin n \<Rightarrow> Fin 0 | _ \<Rightarrow> NaN))"

text \<open>\<open>float_pos a\<close> is the comparison \<open>a > 0\<close>.\<close>

definition float_pos :: "pyfloat \<Rightarrow> bool" where
  "float_pos a = (case a of Fin x \<Rightarrow> 0 < x | PosInf \<Rightarrow> True | _ \<Rightarrow> False)"

text \<open>
  \<open>float_sum xs\<close> is \<open>sum\<close> over floats: it starts from the integer \<open>0\<close>, to which
  the first float is added exactly, and then adds from left to right, rounding each
  addition (the summation of CPython up to version 3.11; later versions carry a
  compensation term along, which can change the last bit of a total of three or more
  floats).
\<close>

fun float_sum :: "real list \<Rightarrow> pyfloat" where
  "float_sum [] = Fin 0"
| "float_sum (x # xs) = foldl (\<lambda>acc y. float_add acc (Fin y)) (Fin x) xs"

text \<open>
  \<open>round1 x\<close> is \<open>round(x, 1)\<close>: the exact value of the double \<open>x\<close> is rounded to
  the nearest multiple of one tenth, a tie going to the even multiple, and the result
  is the double nearest to that decimal. An infinity and a NaN are returned unchanged.
\<close>

definition round1 :: "pyfloat \<Rightarrow> pyfloat" where
  "round1 x =
     (case x of
        Fin v \<Rightarrow> to_double (of_int (round_half_even (v * 10)) / 10)
      | _ \<Rightarrow> x)"

section \<open>The report and the summary aggregator (models.py, normalize.py)\<close>

record inquiry =
  inq_name :: pystr
  inq_kind :: pystr
  inq_date :: date

record public_record =
  pr_type :: pystr
  pr_date :: "date option"
  pr_details :: "(pystr \<times> pystr) list"

text \<open>
  The summary dict that \<open>compute_summary\<close> returns, one field for each of its seven
  keys. In a report \<open>None\<close> stands for the empty dict that the extractors store.
\<close>

record summary_metrics =
  total_revolving_limit :: pyfloat
  total_revolving_balance :: pyfloat
  utilization :: "pyfloat option"
  open_cards :: nat
  mortgages :: nat
  student_loans :: nat
  auto_loans :: nat

record report =
  bureau :: "pystr option"
  pulled_on :: "date option"
  person :: "(pystr \<times> pystr) list"
  accounts :: "account list"
  inquiries :: "inquiry list"
  public_records :: "public_record list"
  summary :: "summary_metrics option"
  raw_chunks :: "pystr list"

definition is_open :: "account \<Rightarrow> bool" where
  "is_open a \<longleftrightarrow> status a \<in> {S ''open'', S ''current''}"

definition is_auto_loan :: "account \<Rightarrow> bool" where
  "is_auto_loan a =
     (if kind a \<noteq> S ''installment'' then False
      else let hay = lower (creditor a @ S '' '' @ join (S '' '') (remarks a))
           in any_in [S ''auto'', S ''vehicle'', S ''car''] hay)"

text \<open>\<open>month_key r\<close> is the sort key \<open>str(r.get("month", ""))\<close> of a row.\<close>

definition month_key :: "row \<Rightarrow> pystr" where
  "month_key r = (case row_month r of None \<Rightarrow> [] | Some m \<Rightarrow> m)"

text \<open>
  \<open>sorted_reverse key xs\<close> is \<open>sorted(xs, key=key, reverse=True)\<close>: descending by key,
  and stable, so elements with equal keys keep their original order. Python documents
  this as reversing, sorting stably in ascending order, and reversing again.
\<close>

definition sorted_reverse :: "('a \<Rightarrow> 'k::linorder) \<Rightarrow> 'a list \<Rightarrow> 'a list" where
  "sorted_reverse key xs = rev (sort_key key (rev xs))"

text \<open>
  \<open>_latest_history_balance\<close>. The test \<open>isinstance(b, (int, float))\<close> holds exactly for
  the rows whose balance is not \<open>None\<close>. The key of the sort is a string, so the sort
  does not raise and the \<open>except\<close> branch is not taken.
\<close>

definition latest_history_balance :: "account \<Rightarrow> real option" where
  "latest_history_balance a =
     (if payment_history a = [] then None
      else let rows = sorted_reverse month_key (payment_history a)
           in case find (\<lambda>r. row_balance r \<noteq> None) rows of
                None \<Rightarrow> None
              | Some r \<Rightarrow> row_balance r)"

definition current_or_latest_balance :: "account \<Rightarrow> real" where
  "current_or_latest_balance a =
     (case balance a of
        Some b \<Rightarrow> b
      | None \<Rightarrow> (case latest_history_balance a of Some hb \<Rightarrow> hb | None \<Rightarrow> 0))"

definition open_revolving_of :: "report \<Rightarrow> account list" where
  "open_revolving_of rep =
     filter (\<lambda>a. kind a = S ''revolving'' \<and> is_open a
                \<and> (case credit_limit a of None \<Rightarrow> False | Some l \<Rightarrow> l > 0))
            (accounts rep)"

text \<open>
  \<open>compute_summary\<close>. The division is reached only with a positive divisor, so it
  does not raise (lemma \<open>float_div_pos\<close>).
\<close>

definition compute_summary :: "report \<Rightarrow> summary_metrics" where
  "compute_summary rep =
     (let open_revolving = open_revolving_of rep;
          total_limit = float_sum (map (\<lambda>a. case credit_limit a of None \<Rightarrow> 0 | Some l \<Rightarrow> l)
                                       open_revolving);
          total_balance = float_sum (map current_or_latest_balance open_revolving);
          util = (if float_pos total_limit
                  then (case float_div total_balance total_limit of
                          None \<Rightarrow> None
                        | Some q \<Rightarrow> Some (round1 q))
                  else None)
      in \<lparr>total_revolving_limit = total_limit,
          total_revolving_balance = total_balance,
          utilization = util,
          open_cards = length open_revolving,
          mortgages = length (filter (\<lambda>a. kind a = S ''mortgage'') (accounts rep)),
          student_loans = length (filter (\<lambda>a. kind a = S ''student'') (accounts rep)),
          auto_loans = length (filter is_auto_loan (accounts rep))\<rparr>)"

text \<open>\<open>normalize_report\<close> is \<open>normalize\<close> of normalize.py.\<close>

definition normalize_report :: "report \<Rightarrow> report" where
  "normalize_report rep = rep\<lparr>summary := Some (compute_summary rep)\<rparr>"






definition report_example :: "account list \<Rightarrow> report" where
  "report_example accs =
     \<lparr>bureau = None, pulled_on = None, person = [], accounts = accs, inquiries = [],
      public_records = [], summary = None, raw_chunks = []\<rparr>"

section \<open>The orchestrator (parse\_any.py)\<close>

text \<open>
  The exceptions that the modelled functions raise: \<open>UnknownFormatError\<close> of
  \<open>parse_report\<close> with its message, and the \<open>OverflowError\<close> of Python's \<open>float\<close>
  on an integer beyond the range of a double.
\<close>

datatype error = UnknownFormatError pystr | OverflowError

text \<open>
  \<open>splitlines s\<close> is \<open>s.splitlines()\<close>: the lines of \<open>s\<close> without their line breaks,
  where a line break is one of the ten line boundaries of Python or the pair
  \<open>\r\n\<close>, and a line break at the very end opens no further line.
\<close>

definition is_linebreak :: "nat \<Rightarrow> bool" where
  "is_linebreak c \<longleftrightarrow> c \<in> {10, 11, 12, 13, 28, 29, 30, 133, 8232, 8233}"

fun splitlines :: "pystr \<Rightarrow> pystr list" where
  "splitlines [] = []"
| "splitlines [c] = (if is_linebreak c then [[]] else [[c]])"
| "splitlines (c # d # s) =
     (if c = 13 \<and> d = 10 then [] # splitlines s
      else if is_linebreak c then [] # splitlines (d # s)
      else (case splitlines (d # s) of [] \<Rightarrow> [[c]] | l # ls \<Rightarrow> (c # l) # ls))"

text \<open>
  \<open>parse_report\<close>. The text extraction from the PDF file, the cleaning pass
  \<open>clean_text\<close> and the entry points \<open>parse\<close> of the three extractors work with PDF
  libraries and regular expressions; they enter as functions, in the order
  \<open>extract_full_text\<close> (the text \<open>extract_pdf_text(pdf_path).get("full_text", "")\<close>),
  \<open>clean_text\<close>, \<open>parse_tu\<close>, \<open>parse_exp\<close>, \<open>parse_eq\<close>. The result is
  \<open>Inl\<close> of the exception raised or \<open>Inr\<close> of the report returned.
\<close>

definition parse_report ::
  "('p \<Rightarrow> pystr) \<Rightarrow> (pystr \<Rightarrow> pystr) \<Rightarrow> (pystr \<Rightarrow> report) \<Rightarrow> (pystr \<Rightarrow> report)
     \<Rightarrow> (pystr \<Rightarrow> report) \<Rightarrow> 'p \<Rightarrow> error + report" where
  "parse_report extract_full_text clean_text parse_tu parse_exp parse_eq pdf_path =
     (let full_text = extract_full_text pdf_path;
          cleaned = clean_text full_text;
          (bur, scs) = detect_bureau_with_scores cleaned
      in if max_score scs = 0
         then let head = join (S ''\<newline>'') (take 20 (splitlines cleaned))
              in Inl (UnknownFormatError
                        (S ''Could not detect bureau. First lines:\<newline>'' @ head))
         else let rep = (if bur = S ''transunion'' then parse_tu cleaned
                         else if bur = S ''experian'' then parse_exp cleaned
                         else if bur = S ''equifax'' then parse_eq cleaned
                         else parse_exp cleaned)
              in Inr (normalize_report (rep\<lparr>bureau := Some bur\<rparr>)))"

section \<open>The value normalizer (normalize.py)\<close>

text \<open>
  The argument of \<open>parse_amount\<close> is \<open>None\<close>, an \<open>int\<close> (a \<open>bool\<close> is an \<open>int\<close>), a
  \<open>float\<close> or a \<open>str\<close>.
\<close>

datatype pyval = PyInt int | PyFloat real | PyStr pystr

text \<open>
  \<open>float(n)\<close> for an integer \<open>n\<close> raises \<open>OverflowError\<close> when \<open>n\<close> rounds to a
  magnitude beyond the largest double, that is from \<open>2^1024 - 2^970\<close> on.
\<close>

definition float_of_int :: "int \<Rightarrow> error + real" where
  "float_of_int n =
     (if 2 ^ 1024 - 2 ^ 970 \<le> \<bar>n\<bar> then Inl OverflowError else Inr (of_int n))"

definition NONE_TOKENS :: "pystr list" where
  "NONE_TOKENS = [S '''', S ''-'', [8212], S ''na'', S ''n/a'', S ''none'']"

text \<open>The class \<open>\d\<close> of \<open>re\<close>, for the code points up to U+00FF.\<close>

definition is_digit :: "nat \<Rightarrow> bool" where
  "is_digit c \<longleftrightarrow> 48 \<le> c \<and> c \<le> 57"

text \<open>
  \<open>match_number s\<close> is the match of the pattern \<open>-?\d+(?:\.\d+)?\<close> at the start of
  \<open>s\<close>: the matched token and the rest of \<open>s\<close> after it, or \<open>None\<close>. The sign is
  taken when a digit follows it, the digits as far as they go, and a point with its
  digits when at least one digit follows the point.
\<close>

definition match_number :: "pystr \<Rightarrow> (pystr \<times> pystr) option" where
  "match_number s =
     (let (sign, r) = (case s of c # r \<Rightarrow> if c = 45 then ([45], r) else ([], s) | [] \<Rightarrow> ([], s));
          digits = takeWhile is_digit r;
          rest = dropWhile is_digit r
      in if digits = [] then None
         else (case rest of
                 c # r2 \<Rightarrow>
                   if c = 46 \<and> takeWhile is_digit r2 \<noteq> []
                   then Some (sign @ digits @ [46] @ takeWhile is_digit r2, dropWhile is_digit r2)
                   else Some (sign @ digits, rest)
               | [] \<Rightarrow> Some (sign @ digits, rest)))"

text \<open>
  \<open>number_tokens s\<close> is \<open>re.findall(r"-?\d+(?:\.\d+)?", s)\<close>: the matches from left to
  right, each search starting where the match before it ended.
\<close>

function number_tokens :: "pystr \<Rightarrow> pystr list" where
  "number_tokens [] = []"
| "number_tokens (c # s) =
     (case match_number (c # s) of
        Some (tok, rest) \<Rightarrow> tok # number_tokens rest
      | None \<Rightarrow> number_tokens s)"
  by pat_completeness auto
termination
proof (relation "measure length")
  show "wf (measure length)" by simp
next
  fix c :: nat and s x2 tok rest
  assume "match_number (c # s) = Some x2" and "(tok, rest) = x2"
  then have m: "match_number (c # s) = Some (tok, rest)" by simp
  have d: "takeWhile is_digit xs \<noteq> [] \<Longrightarrow> length (dropWhile is_digit xs) < length xs"
    for xs :: pystr
    by (cases xs) (auto simp add: le_imp_less_Suc length_dropWhile_le split: if_splits)
  have e: "dropWhile is_digit xs = y # ys \<Longrightarrow> length (dropWhile is_digit ys) < length (dropWhile is_digit xs)"
    for xs ys :: pystr and y
    by (simp add: le_imp_less_Suc length_dropWhile_le)
  define r where "r = (if c = 45 then s else c # s)"
  have lr: "length r \<le> length (c # s)" by (simp add: r_def)
  have nz: "takeWhile is_digit r \<noteq> []"
    using m by (auto simp add: match_number_def Let_def r_def split: if_splits)
  have "rest = dropWhile is_digit r
        \<or> (\<exists>y ys. dropWhile is_digit r = y # ys \<and> rest = dropWhile is_digit ys)"
    using m by (auto simp add: match_number_def Let_def r_def split: if_splits list.splits)
  then have "length rest \<le> length (dropWhile is_digit r)"
    using e by (auto simp add: less_imp_le)
  then have "length rest < length (c # s)"
    using d [OF nz] lr by linarith
  then show "(rest, c # s) \<in> measure length" by simp
next
  fix c :: nat and s
  show "(s, c # s) \<in> measure length" by simp
qed

text \<open>
  The number that \<open>float\<close> reads from a token of \<open>number_tokens\<close>: its decimal value.
  Python rounds this value to a double, and to \<open>inf\<close> beyond the range of a double.
\<close>

definition digits_value :: "pystr \<Rightarrow> real" where
  "digits_value ds = foldl (\<lambda>a c. 10 * a + real (c - 48)) 0 ds"

definition fraction_value :: "pystr \<Rightarrow> real" where
  "fraction_value ds = foldr (\<lambda>c a. (real (c - 48) + a) / 10) ds 0"

definition float_of_token :: "pystr \<Rightarrow> real" where
  "float_of_token tok =
     (let (neg, body) = (case tok of c # r \<Rightarrow> if c = 45 then (True, r) else (False, tok)
                                   | [] \<Rightarrow> (False, tok));
          v = digits_value (takeWhile is_digit body)
              + fraction_value (drop 1 (dropWhile is_digit body))
      in if neg then - v else v)"

text \<open>\<open>remove_cp c s\<close> is \<open>s.replace(chr(c), "")\<close>.\<close>

definition remove_cp :: "nat \<Rightarrow> pystr \<Rightarrow> pystr" where
  "remove_cp c s = filter (\<lambda>d. d \<noteq> c) s"

definition parse_amount :: "pyval option \<Rightarrow> error + real option" where
  "parse_amount val =
     (case val of
        None \<Rightarrow> Inr None
      | Some (PyInt n) \<Rightarrow> (case float_of_int n of Inl e \<Rightarrow> Inl e | Inr x \<Rightarrow> Inr (Some x))
      | Some (PyFloat x) \<Rightarrow> Inr (Some x)
      | Some (PyStr v) \<Rightarrow>
          let s = strip v in
          if lower s \<in> set NONE_TOKENS then Inr None
          else
            let s2 = strip (remove_cp 44 (remove_cp 36 s));
                m = number_tokens s2
            in if m = [] then Inr None else Inr (Some (float_of_token (last m))))"



section \<open>Properties of the classifier\<close>

lemma hit_nonneg: "0 \<le> w \<Longrightarrow> 0 \<le> hit b w"
  by (simp add: hit_def)

lemma scores_keys:
  "map fst (scores text) = [S ''transunion'', S ''experian'', S ''equifax'']"
  by (simp add: scores_def Let_def)

lemma S_eq_iff [simp]: "S a = S b \<longleftrightarrow> a = b"
proof -
  have "inj (of_char :: char \<Rightarrow> nat)"
    by (rule injI) simp
  then show ?thesis
    by (auto simp add: S_def dest: inj_mapD [THEN injD])
qed

lemma scores_shape:
  "\<exists>a b c. 0 \<le> a \<and> 0 \<le> b \<and> 0 \<le> c \<and>
     scores text = [(S ''transunion'', a), (S ''experian'', b), (S ''equifax'', c)]"
  by (simp add: scores_def Let_def hit_nonneg)

lemma pick_bureau_three:
  "0 \<le> a \<Longrightarrow> 0 \<le> b \<Longrightarrow> 0 \<le> c \<Longrightarrow>
   pick_bureau [(S ''transunion'', a), (S ''experian'', b), (S ''equifax'', c)] =
     (if max a (max b c) = 0 then S ''experian''
      else if a = max a (max b c) then S ''transunion''
      else if b = max a (max b c) then S ''experian''
      else S ''equifax'')"
  by (auto simp add: pick_bureau_def max_score_def dict_values_def Let_def max_def)

lemma pick_bureau_set: "set sc' = set sc \<Longrightarrow> pick_bureau sc' = pick_bureau sc"
  by (simp add: pick_bureau_def max_score_def dict_values_def Let_def)

lemma score_of_three:
  "score_of [(S ''transunion'', a), (S ''experian'', b), (S ''equifax'', c)] k =
    (if k = S ''transunion'' then a else if k = S ''experian'' then b
     else if k = S ''equifax'' then c else 0)"
  by (simp add: score_of_def)

lemma max_score_three:
  "max_score [(S ''transunion'', a), (S ''experian'', b), (S ''equifax'', c)] = max a (max b c)"
  by (simp add: max_score_def dict_values_def)

lemma scores_tie_example:
  "scores (S ''satisfactory accounts balance histories'') =
     [(S ''transunion'', 2), (S ''experian'', 2), (S ''equifax'', 0)]"
  by (simp add: scores_def S_def lower_def lower_cp_def hit_def Let_def)

lemma scores_no_signal_example:
  "scores (S ''Hello'') = [(S ''transunion'', 0), (S ''experian'', 0), (S ''equifax'', 0)]"
  by (simp add: scores_def S_def lower_def lower_cp_def hit_def Let_def)

text \<open>
  Claim C2. For every text the classifier returns the score dict of \<open>_scores\<close> unchanged
  and a bureau chosen from it alone: a bureau whose score is strictly above the two
  others is returned; when the maximum is positive, the bureau returned has the maximal
  score and every bureau before it in the order transunion, experian, equifax has a
  smaller score, so a tie goes to the first tied bureau of that order; and any dict with
  the same entries, in whatever insertion order, gives the same bureau.
\<close>

theorem detect_bureau_highest_score_priority:
  "snd (detect_bureau_with_scores text) = scores text
   \<and> (\<forall>b \<in> set PRIORITY.
        (\<forall>b' \<in> set PRIORITY. b' \<noteq> b \<longrightarrow> score_of (scores text) b' < score_of (scores text) b)
        \<longrightarrow> detect_bureau text = b)
   \<and> (0 < max_score (scores text) \<longrightarrow>
        detect_bureau text \<in> set PRIORITY
        \<and> score_of (scores text) (detect_bureau text) = max_score (scores text)
        \<and> (\<forall>b' \<in> set (takeWhile (\<lambda>b'. b' \<noteq> detect_bureau text) PRIORITY).
              score_of (scores text) b' < max_score (scores text)))
   \<and> (\<forall>sc'. set sc' = set (scores text) \<longrightarrow> pick_bureau sc' = detect_bureau text)"
proof -
  obtain a b c where nn: "0 \<le> a" "0 \<le> b" "0 \<le> c"
    and sc: "scores text = [(S ''transunion'', a), (S ''experian'', b), (S ''equifax'', c)]"
    using scores_shape by blast
  have d: "detect_bureau text = pick_bureau (scores text)"
    by (simp add: detect_bureau_def detect_bureau_with_scores_def Let_def)
  have 1: "snd (detect_bureau_with_scores text) = scores text"
    by (simp add: detect_bureau_with_scores_def Let_def)
  have 2: "\<forall>b \<in> set PRIORITY.
        (\<forall>b' \<in> set PRIORITY. b' \<noteq> b \<longrightarrow> score_of (scores text) b' < score_of (scores text) b)
        \<longrightarrow> detect_bureau text = b"
    unfolding d sc using nn
    by (auto simp add: pick_bureau_three score_of_three PRIORITY_def max_def)
  have 3: "0 < max_score (scores text) \<longrightarrow>
        detect_bureau text \<in> set PRIORITY
        \<and> score_of (scores text) (detect_bureau text) = max_score (scores text)
        \<and> (\<forall>b' \<in> set (takeWhile (\<lambda>b'. b' \<noteq> detect_bureau text) PRIORITY).
              score_of (scores text) b' < max_score (scores text))"
    unfolding d sc using nn
    by (auto simp add: pick_bureau_three score_of_three max_score_three PRIORITY_def max_def)
  have 4: "\<forall>sc'. set sc' = set (scores text) \<longrightarrow> pick_bureau sc' = detect_bureau text"
    unfolding d using pick_bureau_set by blast
  show ?thesis using 1 2 3 4 by blast
qed

theorem detect_bureau_highest_score_priority_witness:
  "0 < max_score (scores (S ''satisfactory accounts balance histories''))
   \<and> detect_bureau (S ''satisfactory accounts balance histories'') = S ''transunion''
   \<and> score_of (scores (S ''satisfactory accounts balance histories'')) (S ''experian'')
       = max_score (scores (S ''satisfactory accounts balance histories''))"
  using detect_bureau_highest_score_priority [of "S ''satisfactory accounts balance histories''"]
  by (simp add: scores_tie_example max_score_three score_of_three detect_bureau_def
      detect_bureau_with_scores_def pick_bureau_three)

text \<open>
  Claim C10. On a text with no keyword signal (maximum score zero), and on the empty
  text, \<open>detect_bureau_with_scores\<close> does not fail: it returns the pair of
  \<open>experian\<close> and the score dict with all three scores zero. The failure on such a
  text is raised by \<open>parse_report\<close>, which tests the maximum of the scores.
\<close>

theorem detect_bureau_zero_signal_default:
  "(max_score (scores text) = 0 \<longrightarrow>
      detect_bureau_with_scores text =
        (S ''experian'', [(S ''transunion'', 0), (S ''experian'', 0), (S ''equifax'', 0)]))
   \<and> detect_bureau_with_scores [] =
        (S ''experian'', [(S ''transunion'', 0), (S ''experian'', 0), (S ''equifax'', 0)])
   \<and> (max_score (scores (clean_text (extract_full_text pdf_path))) = 0 \<longrightarrow>
        (\<exists>msg. parse_report extract_full_text clean_text parse_tu parse_exp parse_eq pdf_path
                 = Inl (UnknownFormatError msg)))"
proof -
  have 4: "max_score (scores (clean_text (extract_full_text pdf_path))) = 0 \<longrightarrow>
        (\<exists>msg. parse_report extract_full_text clean_text parse_tu parse_exp parse_eq pdf_path
                 = Inl (UnknownFormatError msg))"
    by (simp add: parse_report_def detect_bureau_with_scores_def Let_def)
  obtain a b c where nn: "0 \<le> a" "0 \<le> b" "0 \<le> c"
    and sc: "scores text = [(S ''transunion'', a), (S ''experian'', b), (S ''equifax'', c)]"
    using scores_shape by blast
  have e: "scores [] = [(S ''transunion'', 0), (S ''experian'', 0), (S ''equifax'', 0)]"
    by (simp add: scores_def)
  have 1: "max_score (scores text) = 0 \<longrightarrow> a = 0 \<and> b = 0 \<and> c = 0"
    using nn unfolding sc max_score_three by (auto simp: max_def split: if_splits)
  have 2: "max_score (scores text) = 0 \<longrightarrow> pick_bureau (scores text) = S ''experian''"
    by (simp add: pick_bureau_def Let_def)
  have 3: "pick_bureau (scores []) = S ''experian''"
    unfolding e by (simp add: pick_bureau_def Let_def max_score_three)
  have 5: "max_score (scores text) = 0 \<longrightarrow>
      detect_bureau_with_scores text =
        (S ''experian'', [(S ''transunion'', 0), (S ''experian'', 0), (S ''equifax'', 0)])"
    using 1 2 sc by (simp add: detect_bureau_with_scores_def Let_def)
  have 6: "detect_bureau_with_scores [] =
        (S ''experian'', [(S ''transunion'', 0), (S ''experian'', 0), (S ''equifax'', 0)])"
    using 3 e by (simp add: detect_bureau_with_scores_def Let_def)
  show ?thesis using 4 5 6 by blast
qed

theorem detect_bureau_zero_signal_default_witness:
  "max_score (scores (S ''Hello'')) = 0
   \<and> detect_bureau_with_scores (S ''Hello'') =
        (S ''experian'', [(S ''transunion'', 0), (S ''experian'', 0), (S ''equifax'', 0)])
   \<and> (\<exists>msg. parse_report (\<lambda>p. p) (\<lambda>t. t) (\<lambda>t. report_example [])
                (\<lambda>t. report_example []) (\<lambda>t. report_example []) (S ''Hello'')
              = Inl (UnknownFormatError msg))"
proof -
  have h: "max_score (scores (S ''Hello'')) = 0"
    by (simp add: scores_no_signal_example max_score_three)
  show ?thesis
    using detect_bureau_zero_signal_default [of "S ''Hello''" "\<lambda>t. t" "\<lambda>p. p" "S ''Hello''"
        "\<lambda>t. report_example []" "\<lambda>t. report_example []" "\<lambda>t. report_example []"] h
    by simp
qed

section \<open>Properties of the section segmenter\<close>

lemma fold_min_starts:
  "fold (\<lambda>pat e. case pat text st of None \<Rightarrow> e | Some (s2, e2) \<Rightarrow> min e s2) pats e0
     = Min (set (e0 # match_starts text st pats))"
proof (induction pats arbitrary: e0)
  case Nil
  then show ?case by (simp add: match_starts_def List.map_filter_simps)
next
  case (Cons pat pats)
  show ?case
  proof (cases "pat text st")
    case None
    then show ?thesis using Cons.IH [of e0]
      by (simp add: match_starts_def List.map_filter_simps)
  next
    case (Some p)
    obtain s2 e2 where p: "p = (s2, e2)" by (cases p)
    have "Min (set (min e0 s2 # match_starts text st pats))
            = Min (set (e0 # s2 # match_starts text st pats))"
      by (cases "match_starts text st pats = []") (simp_all add: min.assoc)
    then show ?thesis using Cons.IH [of "min e0 s2"] Some p
      by (simp add: match_starts_def List.map_filter_simps)
  qed
qed

lemma Min_cons_bound:
  fixes xs :: "nat list"
  assumes "xs \<noteq> []" and "\<forall>x \<in> set xs. x \<le> n"
  shows "Min (set (n # xs)) = Min (set xs)"
proof -
  have ne: "set xs \<noteq> {}" using assms(1) by simp
  have "Min (set xs) \<in> set xs" using ne by (intro Min_in) simp_all
  then have le: "Min (set xs) \<le> n" using assms(2) by blast
  have "Min (set (n # xs)) = min n (Min (set xs))"
    using ne by (simp add: Min_insert)
  then show ?thesis using le by (simp add: min_def)
qed

text \<open>
  Claim C9. When the start anchor has no match the span is the sentinel pair
  \<open>(-1, -1)\<close>. Otherwise the span starts right after the first match of the start
  anchor and ends at the least of the end of the text and the start offsets of the
  first matches, at or after the span's start, of the end anchors: at the end of the
  text when no end anchor matches, and at the least of those start offsets when some
  end anchor matches (a match of \<open>re\<close> starts inside the text).
\<close>

theorem find_span_section_bounds:
  "(start_pat text 0 = None \<longrightarrow> find_span text start_pat end_pats = (- 1, - 1))
   \<and> (\<forall>ms me. start_pat text 0 = Some (ms, me) \<longrightarrow>
         find_span text start_pat end_pats
           = (int me, int (Min (set (length text # match_starts text me end_pats))))
         \<and> (match_starts text me end_pats = [] \<longrightarrow>
              find_span text start_pat end_pats = (int me, int (length text)))
         \<and> (match_starts text me end_pats \<noteq> [] \<and>
              (\<forall>s2 \<in> set (match_starts text me end_pats). s2 \<le> length text) \<longrightarrow>
              find_span text start_pat end_pats
                = (int me, int (Min (set (match_starts text me end_pats))))))"
proof (intro conjI allI impI)
  assume "start_pat text 0 = None"
  then show "find_span text start_pat end_pats = (- 1, - 1)"
    by (simp add: find_span_def)
next
  fix ms me assume h: "start_pat text 0 = Some (ms, me)"
  show g: "find_span text start_pat end_pats
           = (int me, int (Min (set (length text # match_starts text me end_pats))))"
    by (simp add: find_span_def Let_def h fold_min_starts del: set_simps list.set)
  {
    assume "match_starts text me end_pats = []"
    then show "find_span text start_pat end_pats = (int me, int (length text))"
      using g by simp
  }
  {
    assume "match_starts text me end_pats \<noteq> [] \<and>
              (\<forall>s2 \<in> set (match_starts text me end_pats). s2 \<le> length text)"
    then have "Min (set (length text # match_starts text me end_pats))
                 = Min (set (match_starts text me end_pats))"
      by (intro Min_cons_bound) simp_all
    then show "find_span text start_pat end_pats
                = (int me, int (Min (set (match_starts text me end_pats))))"
      using g by simp
  }
qed

lemma match_starts_example: "match_starts (S ''AxxByyC'') (Suc 0) [literal_pattern (S ''C''), literal_pattern (S ''B'')] = [6, 3]"
  by (simp add: match_starts_def List.map_filter_simps literal_pattern_def S_def)

lemma length_example: "length (S ''AxxByyC'') = 7"
  by (simp add: S_def)

theorem find_span_section_bounds_witness:
  "literal_pattern (S ''A'') (S ''AxxByyC'') 0 = Some (0, 1)
   \<and> find_span (S ''AxxByyC'') (literal_pattern (S ''A''))
        [literal_pattern (S ''C''), literal_pattern (S ''B'')] = (1, 3)
   \<and> literal_pattern (S ''Q'') (S ''AxxByyC'') 0 = None
   \<and> find_span (S ''AxxByyC'') (literal_pattern (S ''Q''))
        [literal_pattern (S ''C''), literal_pattern (S ''B'')] = (- 1, - 1)"
proof -
  have a: "literal_pattern (S ''A'') (S ''AxxByyC'') 0 = Some (0, 1)"
    by (simp add: literal_pattern_def S_def)
  have q: "literal_pattern (S ''Q'') (S ''AxxByyC'') 0 = None"
    by (simp add: literal_pattern_def S_def)
  show ?thesis
    using find_span_section_bounds [of "literal_pattern (S ''A'')" "S ''AxxByyC''" "[literal_pattern (S ''C''), literal_pattern (S ''B'')]"]
      find_span_section_bounds [of "literal_pattern (S ''Q'')" "S ''AxxByyC''" "[literal_pattern (S ''C''), literal_pattern (S ''B'')]"]
    by (simp add: a q match_starts_example length_example)
qed

section \<open>Properties of the account blocks\<close>

lemma startswith_iff: "startswith s p \<longleftrightarrow> (\<exists>b. s = p @ b)"
  by (induction s p rule: startswith.induct) auto

lemma str_in_iff: "str_in p s \<longleftrightarrow> (\<exists>a b. s = a @ p @ b)"
proof (induction s)
  case Nil
  then show ?case by auto
next
  case (Cons c s)
  have "(\<exists>a b. c # s = a @ p @ b) \<longleftrightarrow> (\<exists>b. c # s = p @ b) \<or> (\<exists>a b. s = a @ p @ b)"
  proof
    assume "\<exists>a b. c # s = a @ p @ b"
    then obtain a b where ab: "c # s = a @ p @ b" by blast
    show "(\<exists>b. c # s = p @ b) \<or> (\<exists>a b. s = a @ p @ b)"
    proof (cases a)
      case Nil
      then show ?thesis using ab by auto
    next
      case (Cons x a')
      then have "s = a' @ p @ b" using ab by simp
      then show ?thesis by blast
    qed
  next
    assume "(\<exists>b. c # s = p @ b) \<or> (\<exists>a b. s = a @ p @ b)"
    then show "\<exists>a b. c # s = a @ p @ b"
    proof
      assume "\<exists>b. c # s = p @ b"
      then obtain b where "c # s = [] @ p @ b" by auto
      then show ?thesis by blast
    next
      assume "\<exists>a b. s = a @ p @ b"
      then obtain a b where "c # s = (c # a) @ p @ b" by auto
      then show ?thesis by blast
    qed
  qed
  then show ?case using Cons.IH by (simp add: startswith_iff)
qed

lemma str_in_part: "str_in (x @ p @ y) s \<Longrightarrow> str_in p s"
proof -
  assume "str_in (x @ p @ y) s"
  then obtain a b where "s = a @ (x @ p @ y) @ b" using str_in_iff by blast
  then have "s = (a @ x) @ p @ (y @ b)" by simp
  then show ?thesis using str_in_iff by blast
qed

lemma never_late_has_late: "str_in (S ''never late'') s \<Longrightarrow> str_in (S ''late'') s"
  using str_in_part [of "S ''never ''" "S ''late''" "[]" s] by (simp add: S_def)

lemma clamp_chain:
  "(if clamp_limit l = None \<and> clamp_nonneg h \<noteq> None then clamp_limit (clamp_nonneg h)
    else clamp_limit l) = spec_credit_limit l h"
  by (cases l; cases h) (auto simp add: clamp_limit_def clamp_nonneg_def spec_credit_limit_def max_def)

lemma account_tu_limit: "credit_limit (account_tu b) = spec_credit_limit (tu_credit_limit b) (tu_high_balance b)"
  using clamp_chain [of "tu_credit_limit b" "tu_high_balance b"]
  by (simp add: account_tu_def Let_def)

lemma account_exp_limit: "credit_limit (account_exp e) = spec_credit_limit (exp_credit_limit e) (exp_highest_balance e)"
  using clamp_chain [of "exp_credit_limit e" "exp_highest_balance e"]
  by (simp add: account_exp_def Let_def)

lemma account_eq_limit: "credit_limit (account_eq q) = spec_credit_limit (eq_credit_limit q) (eq_high_credit q)"
  using clamp_chain [of "eq_credit_limit q" "eq_high_credit q"]
  by (simp add: account_eq_def Let_def)


lemma map_kind_tu_enumerated: "map_kind_tu a l \<in> set KINDS"
  by (simp add: map_kind_tu_def Let_def KINDS_def)
lemma map_kind_exp_enumerated: "map_kind_exp a \<in> set KINDS"
  by (simp add: map_kind_exp_def Let_def KINDS_def)
lemma map_kind_eq_enumerated: "map_kind_eq a \<in> set KINDS"
  by (simp add: map_kind_eq_def Let_def KINDS_def)
lemma map_status_tu_enumerated: "map_status_tu a l \<in> set STATUSES"
  by (simp add: map_status_tu_def Let_def STATUSES_def)
lemma map_status_exp_enumerated: "map_status_exp a \<in> set STATUSES"
  by (simp add: map_status_exp_def Let_def STATUSES_def)
lemma map_status_eq_enumerated: "map_status_eq a l \<in> set STATUSES"
  by (simp add: map_status_eq_def Let_def STATUSES_def)

lemma account_tu_enumerated: "kind (account_tu b) \<in> set KINDS \<and> status (account_tu b) \<in> set STATUSES"
  by (simp add: account_tu_def Let_def map_kind_tu_enumerated map_status_tu_enumerated)
lemma account_exp_enumerated: "kind (account_exp b) \<in> set KINDS \<and> status (account_exp b) \<in> set STATUSES"
  by (simp add: account_exp_def Let_def map_kind_exp_enumerated map_status_exp_enumerated)
lemma account_eq_enumerated: "kind (account_eq b) \<in> set KINDS \<and> status (account_eq b) \<in> set STATUSES"
  by (simp add: account_eq_def Let_def map_kind_eq_enumerated map_status_eq_enumerated)

lemma map_kind_tu_default:
  "\<not> any_in TU_KIND_KEYS (lower a) \<Longrightarrow> \<not> any_in TU_KIND_KEYS (lower (or_empty l)) \<Longrightarrow>
   \<not> startswith (lower a) (S ''open'') \<Longrightarrow> \<not> str_in (S ''open account'') (lower a) \<Longrightarrow>
   map_kind_tu a l = S ''other''"
  by (simp add: map_kind_tu_def Let_def any_in_def TU_KIND_KEYS_def)

lemma map_kind_exp_default:
  "\<not> any_in EXP_KIND_KEYS (lower (or_empty a)) \<Longrightarrow> \<not> startswith (lower (or_empty a)) (S ''open'') \<Longrightarrow>
   map_kind_exp a = S ''other''"
  by (simp add: map_kind_exp_def Let_def any_in_def EXP_KIND_KEYS_def)

lemma map_kind_eq_default:
  "\<not> any_in EQ_KIND_KEYS (lower (or_empty a)) \<Longrightarrow> \<not> startswith (lower (or_empty a)) (S ''open'') \<Longrightarrow>
   map_kind_eq a = S ''other''"
  by (simp add: map_kind_eq_def Let_def any_in_def EQ_KIND_KEYS_def)

lemma map_status_tu_default:
  "\<not> any_in TU_STATUS_KEYS (hay_of (lower p) r) \<Longrightarrow> \<not> word_search (S ''current'') (lower p) \<Longrightarrow>
   \<not> word_search (S ''sold'') (hay_of (lower p) r) \<Longrightarrow> map_status_tu p r = S ''open''"
  by (simp add: map_status_tu_def Let_def any_in_def TU_STATUS_KEYS_def LATE_KEYS_def)

lemma map_status_exp_default:
  "\<not> any_in EXP_STATUS_KEYS (lower (or_empty s)) \<Longrightarrow> map_status_exp s = S ''open''"
  using never_late_has_late [of "lower (or_empty s)"]
  by (auto simp add: map_status_exp_def Let_def any_in_def EXP_STATUS_KEYS_def LATE_KEYS_def)

lemma map_status_eq_default:
  "\<not> any_in EQ_STATUS_KEYS (hay_of (lower (or_empty s)) n) \<Longrightarrow>
   map_status_eq s n = S ''open''"
  using never_late_has_late [of "hay_of (lower (or_empty s)) n"]
  by (auto simp add: map_status_eq_def Let_def any_in_def EQ_STATUS_KEYS_def LATE_KEYS_def)

lemma account_tu_example:
  "kind (account_tu tu_block_example) = S ''revolving''
   \<and> status (account_tu tu_block_example) = S ''current''
   \<and> balance (account_tu tu_block_example) = Some 1109
   \<and> credit_limit (account_tu tu_block_example) = Some 35000"
  by (simp add: account_tu_def tu_block_example_def Let_def map_kind_tu_def map_status_tu_def
      or_empty_def clamp_limit_def clamp_nonneg_def hay_of_def S_def lower_def lower_cp_def)

lemma account_exp_example:
  "kind (account_exp exp_block_example) = S ''other''
   \<and> status (account_exp exp_block_example) = S ''open''
   \<and> credit_limit (account_exp exp_block_example) = Some 500"
  by (simp add: account_exp_def exp_block_example_def Let_def map_kind_exp_def map_status_exp_def
      or_empty_def clamp_limit_def clamp_nonneg_def any_in_def LATE_KEYS_def S_def lower_def
      lower_cp_def)

lemma narratives_example:
  "narratives_of (Some (S ''Account sold; Closed'')) = [S ''Account sold'', S ''Closed'']"
  by (simp add: narratives_of_def or_empty_def strip_def py_isspace_def S_def)

lemma account_eq_example:
  "kind (account_eq eq_block_example) = S ''other''
   \<and> status (account_eq eq_block_example) = S ''sold''
   \<and> credit_limit (account_eq eq_block_example) = None"
  by (simp add: account_eq_def eq_block_example_def Let_def narratives_example)
     (simp add: map_kind_eq_def map_status_eq_def or_empty_def clamp_limit_def clamp_nonneg_def
      any_in_def hay_of_def S_def lower_def lower_cp_def)

text \<open>
  Claim C4. In each of the three extractors the credit limit stored in the account is
  the parsed limit when that lies in the range from 100 to 10,000,000; otherwise it is
  the parsed high balance (highest balance, high credit) when that figure is present and
  lies in the range; otherwise it is \<open>None\<close>. The guardrail \<open>clamp_limit\<close> alone turns a
  limit below 100 or above 10,000,000 into \<open>None\<close> and keeps any other limit: 5 becomes
  \<open>None\<close>, 15000 stays.
\<close>

theorem credit_limit_guardrail:
  "credit_limit (account_tu b) = spec_credit_limit (tu_credit_limit b) (tu_high_balance b)
   \<and> credit_limit (account_exp e) = spec_credit_limit (exp_credit_limit e) (exp_highest_balance e)
   \<and> credit_limit (account_eq q) = spec_credit_limit (eq_credit_limit q) (eq_high_credit q)
   \<and> clamp_limit (Some x) = (if x < 100 \<or> x > 10000000 then None else Some x)
   \<and> clamp_limit (Some 5) = None \<and> clamp_limit (Some 15000) = Some 15000"
proof -
  have "clamp_limit (Some x) = (if x < 100 \<or> x > 10000000 then None else Some x)"
    by (simp add: clamp_limit_def)
  moreover have "clamp_limit (Some 5) = None" by (simp add: clamp_limit_def)
  moreover have "clamp_limit (Some 15000) = Some 15000" by (simp add: clamp_limit_def)
  ultimately show ?thesis using account_tu_limit account_exp_limit account_eq_limit by simp
qed

theorem credit_limit_guardrail_witness:
  "credit_limit (account_tu tu_block_example) = Some 35000
   \<and> spec_credit_limit (tu_credit_limit tu_block_example) (tu_high_balance tu_block_example)
       = Some 35000
   \<and> spec_credit_limit (exp_credit_limit exp_block_example)
        (exp_highest_balance exp_block_example) = Some 500
   \<and> spec_credit_limit (eq_credit_limit eq_block_example) (eq_high_credit eq_block_example)
       = None
   \<and> clamp_limit (Some 99) = None"
  using credit_limit_guardrail [of tu_block_example exp_block_example eq_block_example 99]
    account_tu_example account_exp_example account_eq_example
  by simp

text \<open>
  Claim C6. Every account that one of the three extractors emits has a \<open>kind\<close> among
  the seven values and a \<open>status\<close> among the nine values of the type \<open>Account\<close>. An
  account type (and loan type) in which no kind keyword of the extractor occurs maps to
  \<open>other\<close>, and a status text (with its remarks or narratives) in which no status
  keyword of the extractor occurs maps to \<open>open\<close>.
\<close>

theorem account_kind_status_enumerated:
  "(\<forall>a \<in> set (parse_accounts_tu bs) \<union> set (parse_accounts_exp es)
            \<union> set (extract_accounts_eq qs).
       kind a \<in> set KINDS \<and> status a \<in> set STATUSES)
   \<and> length KINDS = 7 \<and> length STATUSES = 9
   \<and> (\<not> any_in TU_KIND_KEYS (lower t) \<and> \<not> any_in TU_KIND_KEYS (lower (or_empty l))
        \<and> \<not> startswith (lower t) (S ''open'') \<and> \<not> str_in (S ''open account'') (lower t)
        \<longrightarrow> map_kind_tu t l = S ''other'')
   \<and> (\<not> any_in EXP_KIND_KEYS (lower (or_empty u))
        \<and> \<not> startswith (lower (or_empty u)) (S ''open'')
        \<longrightarrow> map_kind_exp u = S ''other'')
   \<and> (\<not> any_in EQ_KIND_KEYS (lower (or_empty u))
        \<and> \<not> startswith (lower (or_empty u)) (S ''open'')
        \<longrightarrow> map_kind_eq u = S ''other'')
   \<and> (\<not> any_in TU_STATUS_KEYS (hay_of (lower p) r) \<and> \<not> word_search (S ''current'') (lower p)
        \<and> \<not> word_search (S ''sold'') (hay_of (lower p) r)
        \<longrightarrow> map_status_tu p r = S ''open'')
   \<and> (\<not> any_in EXP_STATUS_KEYS (lower (or_empty s)) \<longrightarrow> map_status_exp s = S ''open'')
   \<and> (\<not> any_in EQ_STATUS_KEYS (hay_of (lower (or_empty s)) n)
        \<longrightarrow> map_status_eq s n = S ''open'')"
proof -
  have "\<forall>a \<in> set (parse_accounts_tu bs) \<union> set (parse_accounts_exp es)
            \<union> set (extract_accounts_eq qs).
       kind a \<in> set KINDS \<and> status a \<in> set STATUSES"
    using account_tu_enumerated account_exp_enumerated account_eq_enumerated
    by (auto simp add: parse_accounts_tu_def parse_accounts_exp_def extract_accounts_eq_def)
  moreover have "length KINDS = 7 \<and> length STATUSES = 9"
    by (simp add: KINDS_def STATUSES_def)
  ultimately show ?thesis
    using map_kind_tu_default [of t l] map_kind_exp_default [of u] map_kind_eq_default [of u]
      map_status_tu_default [of p r] map_status_exp_default [of s] map_status_eq_default [of s n]
    by blast
qed

lemma no_keyword_example:
  "\<not> any_in TU_KIND_KEYS (lower (S ''Utility'')) \<and> \<not> any_in TU_KIND_KEYS (lower (or_empty None))
   \<and> \<not> startswith (lower (S ''Utility'')) (S ''open'')
   \<and> \<not> str_in (S ''open account'') (lower (S ''Utility''))
   \<and> \<not> any_in EXP_KIND_KEYS (lower (or_empty (Some (S ''Utility''))))
   \<and> \<not> startswith (lower (or_empty (Some (S ''Utility'')))) (S ''open'')
   \<and> \<not> any_in EQ_KIND_KEYS (lower (or_empty (Some (S ''Utility''))))
   \<and> \<not> any_in TU_STATUS_KEYS (hay_of (lower (S ''Unknown'')) [])
   \<and> \<not> word_search (S ''current'') (lower (S ''Unknown''))
   \<and> \<not> word_search (S ''sold'') (hay_of (lower (S ''Unknown'')) [])
   \<and> \<not> any_in EXP_STATUS_KEYS (lower (or_empty (Some (S ''Unknown''))))
   \<and> \<not> any_in EQ_STATUS_KEYS (hay_of (lower (or_empty (Some (S ''Unknown'')))) [])"
  by (simp add: any_in_def TU_KIND_KEYS_def EXP_KIND_KEYS_def EQ_KIND_KEYS_def TU_STATUS_KEYS_def
      EXP_STATUS_KEYS_def EQ_STATUS_KEYS_def or_empty_def hay_of_def word_search_def is_word_cp_def
      S_def lower_def lower_cp_def)

theorem account_kind_status_enumerated_witness:
  "kind (account_tu tu_block_example) \<in> set KINDS
   \<and> status (account_tu tu_block_example) \<in> set STATUSES
   \<and> kind (account_exp exp_block_example) \<in> set KINDS
   \<and> status (account_eq eq_block_example) \<in> set STATUSES
   \<and> \<not> any_in TU_KIND_KEYS (lower (S ''Utility''))
   \<and> map_kind_tu (S ''Utility'') None = S ''other''
   \<and> map_kind_exp (Some (S ''Utility'')) = S ''other''
   \<and> map_kind_eq (Some (S ''Utility'')) = S ''other''
   \<and> \<not> any_in TU_STATUS_KEYS (hay_of (lower (S ''Unknown'')) [])
   \<and> map_status_tu (S ''Unknown'') [] = S ''open''
   \<and> map_status_exp (Some (S ''Unknown'')) = S ''open''
   \<and> map_status_eq (Some (S ''Unknown'')) [] = S ''open''"
  using account_kind_status_enumerated [of "[tu_block_example]" "[exp_block_example]"
      "[eq_block_example]" "S ''Utility''" None "Some (S ''Utility'')" "S ''Unknown''" "[]"
      "Some (S ''Unknown'')" "[]"]
    no_keyword_example
  by (simp add: parse_accounts_tu_def parse_accounts_exp_def extract_accounts_eq_def)

text \<open>
  Claim C3, as the code has it. Only the Equifax mapping holds the tie-break: when the
  lowercased status text with its narratives contains \<open>transfer\<close> (so also when it
  contains \<open>transferred\<close>) and \<open>sold\<close>, and neither of the two earlier rules applies
  (the text contains \<open>pays as agreed\<close>, or the status contains \<open>open\<close> and the text
  \<open>never late\<close>; the text contains both \<open>paid\<close> and \<open>closed\<close>), the status is
  \<open>sold\<close>.
\<close>

theorem map_status_eq_prefers_sold:
  "(str_in (S ''transfer'') (hay_of (lower (or_empty status')) narratives)
      \<or> str_in (S ''transferred'') (hay_of (lower (or_empty status')) narratives))
   \<and> str_in (S ''sold'') (hay_of (lower (or_empty status')) narratives)
   \<and> \<not> str_in (S ''pays as agreed'') (hay_of (lower (or_empty status')) narratives)
   \<and> \<not> (str_in (S ''open'') (lower (or_empty status'))
          \<and> str_in (S ''never late'') (hay_of (lower (or_empty status')) narratives))
   \<and> \<not> (str_in (S ''paid'') (hay_of (lower (or_empty status')) narratives)
          \<and> str_in (S ''closed'') (hay_of (lower (or_empty status')) narratives))
   \<longrightarrow> map_status_eq status' narratives = S ''sold''"
proof -
  have "str_in (S ''transferred'') h \<Longrightarrow> str_in (S ''transfer'') h" for h
    using str_in_part [of "[]" "S ''transfer''" "S ''red''" h] by (simp add: S_def)
  then show ?thesis
    by (auto simp add: map_status_eq_def Let_def)
qed

theorem map_status_eq_prefers_sold_witness:
  "str_in (S ''transferred'') (hay_of (lower (or_empty (Some (S ''Transferred, sold'')))) [])
   \<and> str_in (S ''sold'') (hay_of (lower (or_empty (Some (S ''Transferred, sold'')))) [])
   \<and> map_status_eq (Some (S ''Transferred, sold'')) [] = S ''sold''"
proof -
  have e: "str_in (S ''transferred'') (hay_of (lower (or_empty (Some (S ''Transferred, sold'')))) [])
     \<and> str_in (S ''sold'') (hay_of (lower (or_empty (Some (S ''Transferred, sold'')))) [])
     \<and> \<not> str_in (S ''pays as agreed'') (hay_of (lower (or_empty (Some (S ''Transferred, sold'')))) [])
     \<and> \<not> str_in (S ''open'') (lower (or_empty (Some (S ''Transferred, sold''))))
     \<and> \<not> str_in (S ''paid'') (hay_of (lower (or_empty (Some (S ''Transferred, sold'')))) [])"
    by (simp add: hay_of_def or_empty_def S_def lower_def lower_cp_def)
  show ?thesis
    using map_status_eq_prefers_sold [of "Some (S ''Transferred, sold'')" "[]"] e by blast
qed

text \<open>
  Claim C3 as stated fails. The TransUnion and the Experian mapping test
  \<open>transferred\<close> before \<open>sold\<close>: on the status \<open>transferred sold\<close> they return
  \<open>transferred\<close>. The Equifax mapping tests \<open>paid\<close> with \<open>closed\<close> before the
  tie-break: on \<open>paid closed transferred sold\<close> it returns \<open>closed\<close>.
\<close>

theorem sold_tie_break_counterexample:
  "str_in (S ''transferred'') (hay_of (lower (S ''transferred sold'')) [])
   \<and> str_in (S ''sold'') (hay_of (lower (S ''transferred sold'')) [])
   \<and> map_status_tu (S ''transferred sold'') [] = S ''transferred''
   \<and> map_status_tu (S ''transferred sold'') [] \<noteq> S ''sold''
   \<and> str_in (S ''transferred'') (lower (or_empty (Some (S ''transferred sold''))))
   \<and> str_in (S ''sold'') (lower (or_empty (Some (S ''transferred sold''))))
   \<and> map_status_exp (Some (S ''transferred sold'')) = S ''transferred''
   \<and> map_status_exp (Some (S ''transferred sold'')) \<noteq> S ''sold''
   \<and> str_in (S ''transferred'')
        (hay_of (lower (or_empty (Some (S ''paid closed transferred sold'')))) [])
   \<and> str_in (S ''sold'')
        (hay_of (lower (or_empty (Some (S ''paid closed transferred sold'')))) [])
   \<and> map_status_eq (Some (S ''paid closed transferred sold'')) [] = S ''closed''
   \<and> map_status_eq (Some (S ''paid closed transferred sold'')) [] \<noteq> S ''sold''"
  by (simp add: map_status_tu_def map_status_exp_def map_status_eq_def Let_def hay_of_def
      or_empty_def word_search_def is_word_cp_def S_def lower_def lower_cp_def)

section \<open>Properties of the summary aggregator\<close>



lemmas float_eval = to_double_def nearest_double_def binade_def exp_up.simps exp_down.simps
  pow2_def round_half_even_def round1_def Let_def















lemma to_double_overflow_example: "to_double (2 ^ 1024) = PosInf"
  by (simp add: float_eval)

lemma float_sum_examples:
  "float_sum [3602879701896397 / 36028797018963968, 3602879701896397 / 18014398509481984]
     = Fin (1351079888211149 / 4503599627370496)
   \<and> float_sum [3957362250691379 / 8796093022208, 3602879701896397 / 36028797018963968]
     = Fin 450"
  by (simp add: float_add_def float_eval)




section \<open>Properties of the orchestrator\<close>

lemma scores_all_zero_iff:
  "(\<forall>b \<in> set PRIORITY. score_of (scores text) b = 0) \<longleftrightarrow> max_score (scores text) = 0"
proof -
  obtain a b c where nn: "0 \<le> a" "0 \<le> b" "0 \<le> c"
    and sc: "scores text = [(S ''transunion'', a), (S ''experian'', b), (S ''equifax'', c)]"
    using scores_shape by blast
  show ?thesis
    unfolding sc using nn
    by (auto simp add: score_of_three max_score_three PRIORITY_def max_def)
qed

lemma max_score_nonneg: "0 \<le> max_score (scores text)"
proof -
  obtain a b c where nn: "0 \<le> a" "0 \<le> b" "0 \<le> c"
    and sc: "scores text = [(S ''transunion'', a), (S ''experian'', b), (S ''equifax'', c)]"
    using scores_shape by blast
  show ?thesis
    unfolding sc using nn by (simp add: max_score_three max_def)
qed

lemma pick_bureau_priority: "pick_bureau (scores text) \<in> set PRIORITY"
proof -
  obtain a b c where nn: "0 \<le> a" "0 \<le> b" "0 \<le> c"
    and sc: "scores text = [(S ''transunion'', a), (S ''experian'', b), (S ''equifax'', c)]"
    using scores_shape by blast
  show ?thesis
    unfolding sc using nn by (simp add: pick_bureau_three PRIORITY_def)
qed

lemma parse_report_zero:
  "max_score (scores (clean_text (extract_full_text pdf_path))) = 0 \<Longrightarrow>
   parse_report extract_full_text clean_text parse_tu parse_exp parse_eq pdf_path =
     Inl (UnknownFormatError
           (S ''Could not detect bureau. First lines:\<newline>''
            @ join (S ''\<newline>'') (take 20 (splitlines (clean_text (extract_full_text pdf_path))))))"
  by (simp add: parse_report_def detect_bureau_with_scores_def Let_def)

lemma parse_report_positive:
  "max_score (scores (clean_text (extract_full_text pdf_path))) \<noteq> 0 \<Longrightarrow>
   parse_report extract_full_text clean_text parse_tu parse_exp parse_eq pdf_path =
     Inr (normalize_report
           ((if detect_bureau (clean_text (extract_full_text pdf_path)) = S ''transunion''
               then parse_tu (clean_text (extract_full_text pdf_path))
             else if detect_bureau (clean_text (extract_full_text pdf_path)) = S ''experian''
               then parse_exp (clean_text (extract_full_text pdf_path))
             else parse_eq (clean_text (extract_full_text pdf_path)))
            \<lparr>bureau := Some (detect_bureau (clean_text (extract_full_text pdf_path)))\<rparr>))"
  using pick_bureau_priority [of "clean_text (extract_full_text pdf_path)"]
  by (auto simp add: parse_report_def detect_bureau_with_scores_def detect_bureau_def Let_def
      PRIORITY_def)

text \<open>
  Claim C1. Let the cleaned text be the result of the cleaning pass on the extracted
  text. When every source has the score zero on it, \<open>parse_report\<close> raises
  \<open>UnknownFormatError\<close>; the message is the fixed lead followed by the first twenty
  lines of the cleaned text, joined by line feeds, so it contains them; and no report is
  returned. When the maximal score is positive, \<open>parse_report\<close> raises nothing: it
  returns the report of the extractor of the detected bureau, stamped with that bureau
  and normalized. One of the two cases always holds.
\<close>

theorem parse_report_classification_gate:
  "((\<forall>b \<in> set PRIORITY. score_of (scores (clean_text (extract_full_text pdf_path))) b = 0) \<longrightarrow>
      parse_report extract_full_text clean_text parse_tu parse_exp parse_eq pdf_path =
        Inl (UnknownFormatError
              (S ''Could not detect bureau. First lines:\<newline>''
               @ join (S ''\<newline>'')
                   (take 20 (splitlines (clean_text (extract_full_text pdf_path))))))
      \<and> (\<exists>msg. parse_report extract_full_text clean_text parse_tu parse_exp parse_eq pdf_path
                  = Inl (UnknownFormatError msg)
                \<and> str_in (join (S ''\<newline>'')
                            (take 20 (splitlines (clean_text (extract_full_text pdf_path))))) msg)
      \<and> (\<forall>rep. parse_report extract_full_text clean_text parse_tu parse_exp parse_eq pdf_path
                  \<noteq> Inr rep))
   \<and> (0 < max_score (scores (clean_text (extract_full_text pdf_path))) \<longrightarrow>
        detect_bureau (clean_text (extract_full_text pdf_path)) \<in> set PRIORITY
        \<and> parse_report extract_full_text clean_text parse_tu parse_exp parse_eq pdf_path =
            Inr (normalize_report
              ((if detect_bureau (clean_text (extract_full_text pdf_path)) = S ''transunion''
                  then parse_tu (clean_text (extract_full_text pdf_path))
                else if detect_bureau (clean_text (extract_full_text pdf_path)) = S ''experian''
                  then parse_exp (clean_text (extract_full_text pdf_path))
                else parse_eq (clean_text (extract_full_text pdf_path)))
               \<lparr>bureau := Some (detect_bureau (clean_text (extract_full_text pdf_path)))\<rparr>))
        \<and> (\<forall>e. parse_report extract_full_text clean_text parse_tu parse_exp parse_eq pdf_path
                  \<noteq> Inl e))
   \<and> ((\<forall>b \<in> set PRIORITY. score_of (scores (clean_text (extract_full_text pdf_path))) b = 0)
        \<or> 0 < max_score (scores (clean_text (extract_full_text pdf_path))))"
proof -
  let ?c = "clean_text (extract_full_text pdf_path)"
  let ?r = "parse_report extract_full_text clean_text parse_tu parse_exp parse_eq pdf_path"
  let ?head = "join (S ''\<newline>'') (take 20 (splitlines ?c))"
  let ?msg = "S ''Could not detect bureau. First lines:\<newline>'' @ ?head"
  have c: "str_in ?head ?msg"
    using str_in_iff [of ?head ?msg] by (metis append_Nil2)
  have z: "(\<forall>b \<in> set PRIORITY. score_of (scores ?c) b = 0) \<longrightarrow>
      ?r = Inl (UnknownFormatError ?msg)
      \<and> (\<exists>msg. ?r = Inl (UnknownFormatError msg) \<and> str_in ?head msg)
      \<and> (\<forall>rep. ?r \<noteq> Inr rep)"
  proof
    assume "\<forall>b \<in> set PRIORITY. score_of (scores ?c) b = 0"
    then have "max_score (scores ?c) = 0" using scores_all_zero_iff by blast
    then have "?r = Inl (UnknownFormatError ?msg)"
      by (rule parse_report_zero [of clean_text extract_full_text pdf_path parse_tu parse_exp parse_eq])
    then show "?r = Inl (UnknownFormatError ?msg)
      \<and> (\<exists>msg. ?r = Inl (UnknownFormatError msg) \<and> str_in ?head msg)
      \<and> (\<forall>rep. ?r \<noteq> Inr rep)"
      using c by auto
  qed
  have p: "0 < max_score (scores ?c) \<longrightarrow>
        detect_bureau ?c \<in> set PRIORITY
        \<and> ?r = Inr (normalize_report
              ((if detect_bureau ?c = S ''transunion'' then parse_tu ?c
                else if detect_bureau ?c = S ''experian'' then parse_exp ?c
                else parse_eq ?c)\<lparr>bureau := Some (detect_bureau ?c)\<rparr>))
        \<and> (\<forall>e. ?r \<noteq> Inl e)"
  proof
    assume "0 < max_score (scores ?c)"
    then have "max_score (scores ?c) \<noteq> 0" by simp
    from parse_report_positive [of clean_text extract_full_text pdf_path parse_tu parse_exp parse_eq, OF this]
    show "detect_bureau ?c \<in> set PRIORITY
        \<and> ?r = Inr (normalize_report
              ((if detect_bureau ?c = S ''transunion'' then parse_tu ?c
                else if detect_bureau ?c = S ''experian'' then parse_exp ?c
                else parse_eq ?c)\<lparr>bureau := Some (detect_bureau ?c)\<rparr>))
        \<and> (\<forall>e. ?r \<noteq> Inl e)"
      using pick_bureau_priority [of ?c]
      by (simp add: detect_bureau_def detect_bureau_with_scores_def Let_def)
  qed
  have t: "(\<forall>b \<in> set PRIORITY. score_of (scores ?c) b = 0) \<or> 0 < max_score (scores ?c)"
    using scores_all_zero_iff [of ?c] max_score_nonneg [of ?c] by linarith
  show ?thesis using z p t by blast
qed

theorem parse_report_classification_gate_witness:
  "score_of (scores (S ''Hello'')) (S ''transunion'') = 0
   \<and> score_of (scores (S ''Hello'')) (S ''experian'') = 0
   \<and> score_of (scores (S ''Hello'')) (S ''equifax'') = 0
   \<and> parse_report (\<lambda>p. p) (\<lambda>t. t) (\<lambda>t. report_example []) (\<lambda>t. report_example [])
        (\<lambda>t. report_example []) (S ''Hello'')
      = Inl (UnknownFormatError (S ''Could not detect bureau. First lines:\<newline>Hello''))
   \<and> 0 < max_score (scores (S ''satisfactory accounts balance histories''))
   \<and> parse_report (\<lambda>p. p) (\<lambda>t. t) (\<lambda>t. report_example []) (\<lambda>t. report_example [])
        (\<lambda>t. report_example []) (S ''satisfactory accounts balance histories'')
      = Inr (normalize_report ((report_example [])\<lparr>bureau := Some (S ''transunion'')\<rparr>))"
proof -
  have h1: "\<forall>b \<in> set PRIORITY. score_of (scores (S ''Hello'')) b = 0"
    by (simp add: scores_no_signal_example score_of_three PRIORITY_def)
  have l: "S ''Could not detect bureau. First lines:\<newline>''
            @ join (S ''\<newline>'') (take 20 (splitlines (S ''Hello'')))
           = S ''Could not detect bureau. First lines:\<newline>Hello''"
    by (simp add: S_def is_linebreak_def)
  have h2: "0 < max_score (scores (S ''satisfactory accounts balance histories''))"
    by (simp add: scores_tie_example max_score_three)
  have d: "detect_bureau (S ''satisfactory accounts balance histories'') = S ''transunion''"
    by (simp add: detect_bureau_def detect_bureau_with_scores_def scores_tie_example
        pick_bureau_three)
  show ?thesis
    using parse_report_classification_gate [of "\<lambda>t. t" "\<lambda>p. p" "S ''Hello''"
        "\<lambda>t. report_example []" "\<lambda>t. report_example []" "\<lambda>t. report_example []"]
      parse_report_classification_gate [of "\<lambda>t. t" "\<lambda>p. p"
        "S ''satisfactory accounts balance histories''"
        "\<lambda>t. report_example []" "\<lambda>t. report_example []" "\<lambda>t. report_example []"]
      h1 h2
    by (simp add: l d) (simp add: PRIORITY_def)
qed

section \<open>Properties of the value normalizer\<close>

lemma parse_amount_cases:
  "parse_amount None = Inr None
   \<and> parse_amount (Some (PyFloat x)) = Inr (Some x)
   \<and> (\<bar>n\<bar> < 2 ^ 1024 - 2 ^ 970 \<longrightarrow> parse_amount (Some (PyInt n)) = Inr (Some (of_int n)))
   \<and> (lower (strip v) \<in> set NONE_TOKENS \<longrightarrow> parse_amount (Some (PyStr v)) = Inr None)
   \<and> (lower (strip v) \<notin> set NONE_TOKENS
        \<and> number_tokens (strip (remove_cp 44 (remove_cp 36 (strip v)))) = []
        \<longrightarrow> parse_amount (Some (PyStr v)) = Inr None)
   \<and> (lower (strip v) \<notin> set NONE_TOKENS
        \<and> number_tokens (strip (remove_cp 44 (remove_cp 36 (strip v)))) \<noteq> []
        \<longrightarrow> parse_amount (Some (PyStr v)) =
              Inr (Some (float_of_token
                          (last (number_tokens (strip (remove_cp 44 (remove_cp 36 (strip v)))))))))
   \<and> (\<forall>e. parse_amount (Some (PyStr v)) \<noteq> Inl e)"
  by (simp add: parse_amount_def float_of_int_def Let_def)

text \<open>
  Claim C7 fails on the code for an integer beyond the range of a double. The string
  path of \<open>parse_amount\<close> guards its call of \<open>float\<close> with \<open>try\<close>; the numeric path
  does not, and \<open>float(10**400)\<close> raises \<open>OverflowError\<close>.
\<close>

theorem parse_amount_int_overflow:
  "parse_amount (Some (PyInt (10 ^ 400))) = Inl OverflowError"
  by (simp add: parse_amount_def float_of_int_def)











end
